theory Spec2Isabelle
  imports Complex_Main
begin

section \<open>Python values met by the handlers\<close>

text \<open>
  The values \<open>json.loads\<close> produces. A Python float is a finite binary fraction, an
  infinity or a NaN; the finite ones are kept by their exact rational value, which is all
  that \<open>int()\<close> and truth testing look at. A dict is kept as the list of its items, its keys
  distinct.
\<close>

datatype pyfloat = Finite rat | PosInf | NegInf | NaN

datatype json =
    JNull
  | JBool bool
  | JInt int
  | JFloat pyfloat
  | JStr string
  | JArr "json list"
  | JObj "(string \<times> json) list"

text \<open>
  Exceptions. The first group is raised by the interpreter and its library (their texts are
  the interpreter's and are not kept), \<open>ValueError\<close> carries the text the handler gives it,
  \<open>LedgerFailure\<close> stands for any \<open>Exception\<close> raised inside \<open>blacklist.py\<close>, and the last two
  derive from \<open>BaseException\<close> only, so that \<open>except Exception\<close> lets them through.
  \<open>InvalidLiteral\<close> and \<open>ExceedsDigitLimit\<close> are the two \<open>ValueError\<close>s of \<open>int()\<close> on a string.
\<close>

datatype pyexc =
    JSONDecodeError
  | UnicodeDecodeError
  | AttributeError
  | TypeError
  | OverflowError
  | InvalidLiteral
  | ExceedsDigitLimit
  | MemoryError
  | KeyError
  | ValueError string
  | LedgerFailure string
  | KeyboardInterrupt
  | SystemExit

fun is_Exception :: "pyexc \<Rightarrow> bool" where
  "is_Exception KeyboardInterrupt = False"
| "is_Exception SystemExit = False"
| "is_Exception _ = True"

subsection \<open>\<open>int()\<close>\<close>

text \<open>
  \<open>int(s)\<close> on a string, for characters below 256: surrounding white space is dropped, one
  sign is allowed, then decimal digits, where a single underscore may stand between two
  digits. The white space of \<open>int()\<close> is the characters 9 to 13, 32, 133 and 160; the
  separators 28 to 31, which \<open>str.isspace\<close> accepts, are not among them. A literal of more
  than \<open>max_str_digits\<close> digits (4300, the interpreter's default; leading zeros count,
  underscores and the sign do not) is refused with a \<open>ValueError\<close> of its own.
\<close>

definition isspace :: "char \<Rightarrow> bool" where
  "isspace c = (let n = (of_char c :: nat) in
     (9 \<le> n \<and> n \<le> 13) \<or> n = 32 \<or> n = 133 \<or> n = 160)"

definition max_str_digits :: nat where
  "max_str_digits = 4300"

definition isdigit :: "char \<Rightarrow> bool" where
  "isdigit c = (let n = (of_char c :: nat) in 48 \<le> n \<and> n \<le> 57)"

definition digit_value :: "char \<Rightarrow> nat" where
  "digit_value c = (of_char c :: nat) - 48"

definition strip_space :: "string \<Rightarrow> string" where
  "strip_space s = rev (dropWhile isspace (rev (dropWhile isspace s)))"

fun valid_digits :: "bool \<Rightarrow> string \<Rightarrow> bool" where
  "valid_digits prev [] = prev"
| "valid_digits prev (c # cs) =
     (if isdigit c then valid_digits True cs
      else c = CHR ''_'' \<and> prev \<and> valid_digits False cs)"

definition digits_value :: "string \<Rightarrow> nat" where
  "digits_value ds = foldl (\<lambda>acc c. 10 * acc + digit_value c) 0 (filter isdigit ds)"

definition int_of_digits :: "string \<Rightarrow> pyexc + nat" where
  "int_of_digits ds =
     (if \<not> valid_digits False ds then Inl InvalidLiteral
      else if max_str_digits < length (filter isdigit ds) then Inl ExceedsDigitLimit
      else Inr (digits_value ds))"

definition int_of_str :: "string \<Rightarrow> pyexc + int" where
  "int_of_str s =
     (case strip_space s of
        [] \<Rightarrow> Inl InvalidLiteral
      | c # cs \<Rightarrow>
          if c = CHR ''-'' then map_sum id (\<lambda>n. - int n) (int_of_digits cs)
          else if c = CHR ''+'' then map_sum id int (int_of_digits cs)
          else map_sum id int (int_of_digits (c # cs)))"

text \<open>\<open>int(x)\<close> on a float truncates towards zero and refuses the infinities and NaN.\<close>

definition trunc :: "rat \<Rightarrow> int" where
  "trunc r = (if 0 \<le> r then \<lfloor>r\<rfloor> else \<lceil>r\<rceil>)"

fun py_int :: "json \<Rightarrow> pyexc + int" where
  "py_int (JInt n) = Inr n"
| "py_int (JBool b) = Inr (if b then 1 else 0)"
| "py_int (JFloat (Finite r)) = Inr (trunc r)"
| "py_int (JFloat PosInf) = Inl OverflowError"
| "py_int (JFloat NegInf) = Inl OverflowError"
| "py_int (JFloat NaN) = Inl (ValueError ''cannot convert float NaN to integer'')"
| "py_int (JStr s) = int_of_str s"
| "py_int JNull = Inl TypeError"
| "py_int (JArr _) = Inl TypeError"
| "py_int (JObj _) = Inl TypeError"

text \<open>Truth testing, as \<open>not x\<close> uses it.\<close>

fun truthy :: "json \<Rightarrow> bool" where
  "truthy JNull = False"
| "truthy (JBool b) = b"
| "truthy (JInt n) = (n \<noteq> 0)"
| "truthy (JFloat (Finite r)) = (r \<noteq> 0)"
| "truthy (JFloat _) = True"
| "truthy (JStr s) = (s \<noteq> [])"
| "truthy (JArr xs) = (xs \<noteq> [])"
| "truthy (JObj kvs) = (kvs \<noteq> [])"

text \<open>\<open>str(n)\<close> of an integer, as an f-string renders it.\<close>

function str_nat :: "nat \<Rightarrow> string" where
  "str_nat n = (if n < 10 then [char_of (48 + n)] else str_nat (n div 10) @ [char_of (48 + n mod 10)])"
  by pat_completeness auto
termination
  by (relation "measure id") auto

definition str_int :: "int \<Rightarrow> string" where
  "str_int i = (if i < 0 then CHR ''-'' # str_nat (nat (- i)) else str_nat (nat i))"

subsection \<open>What \<open>json.loads\<close> can return\<close>

text \<open>
  \<open>json.loads\<close> reads an integer literal with \<open>int()\<close>, so no integer of a value it
  returns has more than \<open>max_str_digits\<close> digits; a finite float is at most the largest
  double, whose integer part has 309 digits.
\<close>

function digit_count :: "int \<Rightarrow> nat" where
  "digit_count i = (if \<bar>i\<bar> < 10 then 1 else Suc (digit_count (\<bar>i\<bar> div 10)))"
  by pat_completeness auto
termination
  by (relation "measure (\<lambda>i. nat \<bar>i\<bar>)") auto

fun loadable :: "json \<Rightarrow> bool" where
  "loadable (JInt n) = (digit_count n \<le> max_str_digits)"
| "loadable (JFloat (Finite r)) = (digit_count (trunc r) \<le> 309)"
| "loadable (JArr xs) = list_all loadable xs"
| "loadable (JObj kvs) = list_all loadable (map snd kvs)"
| "loadable _ = True"

section \<open>Strings and paths\<close>

text \<open>\<open>s.strip(c)\<close> and \<open>s.split(c)\<close> for a one-character argument.\<close>

definition strip_char :: "char \<Rightarrow> string \<Rightarrow> string" where
  "strip_char c s = rev (dropWhile (\<lambda>x. x = c) (rev (dropWhile (\<lambda>x. x = c) s)))"

fun split_acc :: "char \<Rightarrow> string \<Rightarrow> string \<Rightarrow> string list" where
  "split_acc c cur [] = [rev cur]"
| "split_acc c cur (x # xs) =
     (if x = c then rev cur # split_acc c [] xs else split_acc c (x # cur) xs)"

definition split_char :: "char \<Rightarrow> string \<Rightarrow> string list" where
  "split_char c s = split_acc c [] s"

text \<open>
  \<open>urlparse(url).path\<close>, after \<open>urllib.parse\<close>: leading control characters and spaces are
  dropped and tabs and line ends removed; a scheme is split off at the first colon when
  what stands before it starts with a letter and holds only scheme characters; a host is
  split off after a leading \<open>//\<close>, up to the first of \<open>/\<close>, \<open>?\<close> and \<open>#\<close>; the fragment is cut
  at the first \<open>#\<close>, the query at the first \<open>?\<close>; and, for the schemes that have them, the
  parameters at the first \<open>;\<close> of the last segment. A host with only one of the two square
  brackets raises \<open>ValueError\<close>. A host with both is checked as an IP literal by the library;
  that check is not modelled and has a result of its own here. Characters are below 256,
  as the server decodes the request line, and for those the library's check of a
  non-ASCII host never raises.
\<close>

datatype urlpath = UrlPath string | UrlError | UrlBracketedHost

definition c0_control_or_space :: "char \<Rightarrow> bool" where
  "c0_control_or_space c = ((of_char c :: nat) \<le> 32)"

definition unsafe_url_byte :: "char \<Rightarrow> bool" where
  "unsafe_url_byte c = ((of_char c :: nat) = 9 \<or> (of_char c :: nat) = 13 \<or> (of_char c :: nat) = 10)"

definition ascii_alpha :: "char \<Rightarrow> bool" where
  "ascii_alpha c = (let n = (of_char c :: nat) in (65 \<le> n \<and> n \<le> 90) \<or> (97 \<le> n \<and> n \<le> 122))"

definition scheme_char :: "char \<Rightarrow> bool" where
  "scheme_char c = (ascii_alpha c \<or> isdigit c \<or> c = CHR ''+'' \<or> c = CHR ''-'' \<or> c = CHR ''.'')"

definition lower :: "char \<Rightarrow> char" where
  "lower c = (let n = (of_char c :: nat) in if 65 \<le> n \<and> n \<le> 90 then char_of (n + 32) else c)"

definition uses_params :: "string list" where
  "uses_params =
     ['''', ''ftp'', ''hdl'', ''prospero'', ''http'', ''imap'', ''https'', ''shttp'', ''rtsp'',
      ''rtsps'', ''rtspu'', ''sip'', ''sips'', ''mms'', ''sftp'', ''tel'']"

text \<open>The scheme and what follows it.\<close>

definition split_scheme :: "string \<Rightarrow> string \<times> string" where
  "split_scheme url =
     (let pre = takeWhile (\<lambda>x. x \<noteq> CHR '':'') url in
      if CHR '':'' \<in> set url \<and> pre \<noteq> [] \<and> ascii_alpha (hd pre) \<and> list_all scheme_char pre
      then (map lower pre, drop (Suc (length pre)) url)
      else ([], url))"

definition netloc_delim :: "char \<Rightarrow> bool" where
  "netloc_delim c = (c = CHR ''/'' \<or> c = CHR ''?'' \<or> c = CHR ''#'')"

text \<open>The host, if the text starts with \<open>//\<close>, and what follows it.\<close>

definition split_netloc :: "string \<Rightarrow> string \<times> string" where
  "split_netloc url =
     (if take 2 url = ''//''
      then (takeWhile (\<lambda>x. \<not> netloc_delim x) (drop 2 url),
            dropWhile (\<lambda>x. \<not> netloc_delim x) (drop 2 url))
      else ([], url))"

definition split_params :: "string \<Rightarrow> string" where
  "split_params url =
     (let seg = rev (takeWhile (\<lambda>x. x \<noteq> CHR ''/'') (rev url));
          pre = rev (dropWhile (\<lambda>x. x \<noteq> CHR ''/'') (rev url))
      in pre @ takeWhile (\<lambda>x. x \<noteq> CHR '';'') seg)"

definition urlparse_path :: "string \<Rightarrow> urlpath" where
  "urlparse_path url0 =
     (let url1 = filter (\<lambda>x. \<not> unsafe_url_byte x) (dropWhile c0_control_or_space url0);
          (scheme, url2) = split_scheme url1;
          (netloc, url3) = split_netloc url2;
          url4 = takeWhile (\<lambda>x. x \<noteq> CHR ''?'') (takeWhile (\<lambda>x. x \<noteq> CHR ''#'') url3)
      in if (CHR ''['' \<in> set netloc) \<noteq> (CHR '']'' \<in> set netloc) then UrlError
         else if CHR ''['' \<in> set netloc then UrlBracketedHost
         else if scheme \<in> set uses_params \<and> CHR '';'' \<in> set url4 then UrlPath (split_params url4)
         else UrlPath url4)"

section \<open>The ledger behind \<open>blacklist.py\<close>\<close>

text \<open>
  An attack record is a dict; its values are strings and integers. The handler only ever
  looks at the key \<open>ip\<close>.
\<close>

datatype fieldval = FStr string | FInt int

type_synonym attack = "(string \<times> fieldval) list"

type_synonym ledger = "attack list"

text \<open>
  Modelled from the spec: \<open>blacklist.py\<close> (\<open>get_blacklist\<close>, \<open>log_attack\<close>,
  \<open>clear_blacklist\<close>, \<open>delete_attack\<close>) is imported by \<open>server.py\<close> and is not among the
  sources. The spec gives it as \<open>list() -> ordered sequence of AttackRecord\<close>,
  \<open>append(ip, attack_type)\<close>, \<open>clear_all()\<close> and \<open>delete(index) -> bool\<close>, "true if a record
  existed at that index and was removed"; the index of a record is its position in the
  sequence.
\<close>

definition get_blacklist :: "ledger \<Rightarrow> attack list" where
  "get_blacklist l = l"

definition log_attack :: "string \<Rightarrow> string \<Rightarrow> ledger \<Rightarrow> ledger" where
  "log_attack ip attack_type l = l @ [[(''ip'', FStr ip), (''attack_type'', FStr attack_type)]]"

definition clear_blacklist :: "ledger \<Rightarrow> ledger" where
  "clear_blacklist l = []"

definition delete_attack :: "int \<Rightarrow> ledger \<Rightarrow> bool \<times> ledger" where
  "delete_attack index l =
     (if 0 \<le> index \<and> index < int (length l)
      then (True, take (nat index) l @ drop (Suc (nat index)) l)
      else (False, l))"

text \<open>
  Modelled from the spec: \<open>fetch_blacklist\<close> and \<open>force_update\<close> of \<open>blacklist.py\<close>
  resynchronise with the external chain (\<open>refresh_from_source\<close> in the spec, "forces a
  ledger-wide resync; side effect visible to subsequent list()"). What the chain holds is
  not part of the program, so both are parameters. A call either leaves a new ledger state
  or raises, and then, as the spec has it, "the stale cache/previous state is retained".
\<close>

record source =
  fetch_blacklist :: "ledger \<Rightarrow> pyexc + ledger"
  force_update :: "ledger \<Rightarrow> pyexc + ledger"

section \<open>Module state, requests and responses\<close>

datatype log_line =
    InfoRunning
  | ErrorUpdating pyexc
  | InfoWaiting int
  | InfoIntervalSet int
  | InfoShuttingDown
  | InfoShutdownComplete

text \<open>
  The module's globals, the ledger and what has been printed. \<open>auto_update_event\<close> and
  \<open>stop_event\<close> are the flags of the two \<open>threading.Event\<close> objects.
\<close>

record world =
  auto_update_interval :: int
  auto_update_event :: bool
  stop_event :: bool
  FRONTEND_HTML :: string
  ledger :: ledger
  stdout :: "log_line list"

definition print :: "log_line \<Rightarrow> world \<Rightarrow> world" where
  "print line w = w\<lparr>stdout := stdout w @ [line]\<rparr>"

text \<open>
  What \<open>rfile.read(n)\<close>, decoding and \<open>json.loads\<close> make of the request, for the length \<open>n\<close>
  that its \<open>Content-Length\<close> gives and the method that its path leads to: the read raises
  (it allocates \<open>n\<close> bytes first, which can fail), or it returns bytes that do not decode,
  text that is not JSON, or the text of a value.
\<close>

datatype payload = ReadRaises pyexc | Undecodable | Malformed | Parsed json

text \<open>
  One handler object per request: the caller's address, the request target, the
  \<open>Content-Length\<close> header if there is one, the body, and the attribute \<open>blacklist_ips\<close>.
\<close>

record handler =
  client_address :: string
  path :: string
  content_length :: "string option"
  rfile :: payload
  blacklist_ips :: "fieldval set"

datatype message = Text string | InvalidData pyexc

text \<open>
  \<open>self.rfile.read(n)\<close> on the buffered reader of the connection: a length below \<open>-1\<close> is
  refused with \<open>ValueError\<close>, one from \<open>sys.maxsize\<close> (of a 64-bit build) on with
  \<open>OverflowError\<close>; \<open>-1\<close> reads all there is; reading zero bytes gives the empty text,
  which decodes and is not JSON.
\<close>

definition maxsize :: int where
  "maxsize = 9223372036854775807"

definition rfile_read :: "handler \<Rightarrow> int \<Rightarrow> pyexc + payload" where
  "rfile_read self n =
     (if n < - 1 then Inl (ValueError ''read length must be non-negative or -1'')
      else if maxsize \<le> n then Inl OverflowError
      else if n = 0 then Inr Malformed
      else case rfile self of ReadRaises e \<Rightarrow> Inl e | p \<Rightarrow> Inr p)"

text \<open>
  \<open>json.loads\<close> on what was read: it raises on bytes that do not decode and on text that
  is not JSON, and an integer literal beyond the digit limit makes its \<open>int()\<close> raise.
\<close>

definition json_loads :: "payload \<Rightarrow> pyexc + json" where
  "json_loads p =
     (case p of
        ReadRaises e \<Rightarrow> Inl e
      | Undecodable \<Rightarrow> Inl UnicodeDecodeError
      | Malformed \<Rightarrow> Inl JSONDecodeError
      | Parsed v \<Rightarrow> if loadable v then Inr v else Inl ExceedsDigitLimit)"

text \<open>
  A response body is the JSON value given to \<open>json.dumps\<close>, the front-end page, or the HTML
  error page that the library's \<open>send_error(code, message)\<close> builds.
\<close>

datatype body = Json json | Html string | ErrorPage nat message

record response =
  status :: nat
  content_type :: string
  body :: body

text \<open>
  A handler method answers, or an exception leaves it and no response is written, or it
  comes to a step that is not modelled: a call of \<open>blacklist.py\<close> with an argument the
  spec's interface does not cover, or the library's check of a bracketed host.
\<close>

datatype outcome = Responded response | Unhandled pyexc | Unspecified

definition json_response :: "nat \<Rightarrow> json \<Rightarrow> response" where
  "json_response code v = \<lparr>status = code, content_type = ''application/json'', body = Json v\<rparr>"

definition send_error :: "nat \<Rightarrow> message \<Rightarrow> response" where
  "send_error code msg =
     \<lparr>status = code, content_type = ''text/html;charset=utf-8'', body = ErrorPage code msg\<rparr>"

definition json_of_field :: "fieldval \<Rightarrow> json" where
  "json_of_field f = (case f of FStr s \<Rightarrow> JStr s | FInt i \<Rightarrow> JInt i)"

definition json_of_attacks :: "attack list \<Rightarrow> json" where
  "json_of_attacks attacks = JArr (map (\<lambda>a. JObj (map (\<lambda>(k, v). (k, json_of_field v)) a)) attacks)"

definition dict_get :: "(string \<times> json) list \<Rightarrow> string \<Rightarrow> json \<Rightarrow> json" where
  "dict_get d k dflt = (case map_of d k of None \<Rightarrow> dflt | Some v \<Rightarrow> v)"

section \<open>\<open>SimpleRESTHandler\<close>\<close>

text \<open>
  \<open>load_blacklist\<close>: \<open>set(attack['ip'] for attack in attacks if 'ip' in attack)\<close>, stored in
  the handler's \<open>blacklist_ips\<close>. The subscript \<open>attack['ip']\<close> raises \<open>KeyError\<close> on a dict
  without the key; the generator's filter stands before it.
\<close>

definition subscript :: "attack \<Rightarrow> string \<Rightarrow> pyexc + fieldval" where
  "subscript attack k = (case map_of attack k of None \<Rightarrow> Inl KeyError | Some v \<Rightarrow> Inr v)"

fun ip_values :: "attack list \<Rightarrow> pyexc + fieldval list" where
  "ip_values [] = Inr []"
| "ip_values (attack # attacks) =
     (if ''ip'' \<in> fst ` set attack then
        (case subscript attack ''ip'' of
           Inl e \<Rightarrow> Inl e
         | Inr v \<Rightarrow> (case ip_values attacks of Inl e \<Rightarrow> Inl e | Inr vs \<Rightarrow> Inr (v # vs)))
      else ip_values attacks)"

definition load_blacklist :: "world \<Rightarrow> handler \<Rightarrow> pyexc + handler" where
  "load_blacklist w self =
     (let attacks = get_blacklist (ledger w) in
      case ip_values attacks of
        Inl e \<Rightarrow> Inl e
      | Inr vs \<Rightarrow> Inr (self\<lparr>blacklist_ips := set vs\<rparr>))"

definition client_ip_blocked :: "handler \<Rightarrow> bool" where
  "client_ip_blocked self = (FStr (client_address self) \<in> blacklist_ips self)"

definition access_denied :: response where
  "access_denied = json_response 403 (JObj [(''error'', JStr ''Access denied: IP blocked'')])"

definition not_found :: response where
  "not_found = json_response 404 (JObj [(''error'', JStr ''Endpoint not found'')])"

subsection \<open>\<open>do_GET\<close>\<close>

definition do_GET :: "handler \<Rightarrow> world \<Rightarrow> outcome \<times> world" where
  "do_GET self0 w =
     (case load_blacklist w self0 of
        Inl e \<Rightarrow> (Unhandled e, w)
      | Inr self \<Rightarrow>
      if client_ip_blocked self then (Responded access_denied, w)
      else if path self = ''/blacklist'' then
        (Responded (json_response 200
           (JObj [(''status'', JStr ''Blacklist fetched''),
                  (''attacks'', json_of_attacks (get_blacklist (ledger w)))])), w)
      else if path self = ''/'' then
        (Responded \<lparr>status = 200, content_type = ''text/html'', body = Html (FRONTEND_HTML w)\<rparr>, w)
      else (Responded not_found, w))"

subsection \<open>\<open>do_POST\<close>\<close>

text \<open>\<open>int(self.headers.get('Content-Length', 0))\<close>.\<close>

definition header_length :: "handler \<Rightarrow> pyexc + int" where
  "header_length self = (case content_length self of None \<Rightarrow> Inr 0 | Some s \<Rightarrow> int_of_str s)"

text \<open>
  The \<open>try\<close> block of \<open>/blacklist/set-interval\<close>: \<open>json.loads\<close>, \<open>data.get("interval", 0)\<close>
  (which only a dict has), \<open>int()\<close> and the test against 1.
\<close>

definition new_interval_of :: "payload \<Rightarrow> pyexc + int" where
  "new_interval_of p =
     (case json_loads p of
        Inl e \<Rightarrow> Inl e
      | Inr (JObj data) \<Rightarrow>
          (case py_int (dict_get data ''interval'' (JInt 0)) of
             Inl e \<Rightarrow> Inl e
           | Inr new_interval \<Rightarrow>
               if new_interval < 1 then Inl (ValueError ''Interval must be >= 1'')
               else Inr new_interval)
      | Inr _ \<Rightarrow> Inl AttributeError)"

definition post_set_interval :: "handler \<Rightarrow> world \<Rightarrow> outcome \<times> world" where
  "post_set_interval self w =
     (case header_length self of
        Inl e \<Rightarrow> (Unhandled e, w)
      | Inr n \<Rightarrow>
          if n = 0 then (Responded (send_error 400 (Text ''No data received'')), w)
          else
            (case rfile_read self n of
               Inl e \<Rightarrow> (Unhandled e, w)
             | Inr p \<Rightarrow>
                 if p = Undecodable then (Unhandled UnicodeDecodeError, w)
                 else
                   (case new_interval_of p of
                      Inl e \<Rightarrow>
                        if is_Exception e then (Responded (send_error 400 (InvalidData e)), w)
                        else (Unhandled e, w)
                    | Inr new_interval \<Rightarrow>
                        (let w1 = w\<lparr>auto_update_interval := new_interval\<rparr>;
                             w2 = print (InfoIntervalSet (auto_update_interval w1)) w1;
                             w3 = w2\<lparr>auto_update_event := True\<rparr>
                         in (Responded (json_response 200
                               (JObj [(''status'', JStr ''success''),
                                      (''new_interval'', JInt (auto_update_interval w3))])), w3)))))"

definition post_update :: "source \<Rightarrow> world \<Rightarrow> outcome \<times> world" where
  "post_update src w =
     (case force_update src (ledger w) of
        Inl e \<Rightarrow> (Unhandled e, w)
      | Inr l \<Rightarrow>
          (let w1 = w\<lparr>ledger := l\<rparr> in
           (Responded (json_response 200
              (JObj [(''status'', JStr ''Blacklist updated''),
                     (''attacks'', json_of_attacks (get_blacklist (ledger w1)))])), w1)))"

definition post_clear :: "world \<Rightarrow> outcome \<times> world" where
  "post_clear w =
     (Responded (json_response 200 (JObj [(''status'', JStr ''Blacklist cleared'')])),
      w\<lparr>ledger := clear_blacklist (ledger w)\<rparr>)"

text \<open>
  The \<open>try\<close> block of \<open>/blacklist/log\<close>. \<open>json.loads\<close> is given the bytes, so bytes that do
  not decode raise inside the block. A key that is absent reads as \<open>None\<close>. The read
  itself stands before the block.
\<close>

definition log_fields_of :: "payload \<Rightarrow> pyexc + json \<times> json" where
  "log_fields_of p =
     (case json_loads p of
        Inl e \<Rightarrow> Inl e
      | Inr (JObj data) \<Rightarrow>
          (let ip = dict_get data ''ip'' JNull;
               attack_type = dict_get data ''attack_type'' JNull
           in if \<not> truthy ip \<or> \<not> truthy attack_type
              then Inl (ValueError ''Missing ip or attack_type'')
              else Inr (ip, attack_type))
      | Inr _ \<Rightarrow> Inl AttributeError)"

definition post_log :: "handler \<Rightarrow> world \<Rightarrow> outcome \<times> world" where
  "post_log self w =
     (case header_length self of
        Inl e \<Rightarrow> (Unhandled e, w)
      | Inr n \<Rightarrow>
          (case rfile_read self n of
             Inl e \<Rightarrow> (Unhandled e, w)
           | Inr p \<Rightarrow>
               (case log_fields_of p of
                  Inl e \<Rightarrow>
                    if is_Exception e
                    then (Responded (json_response 400
                            (JObj [(''error'', JStr ''Invalid JSON or missing fields'')])), w)
                    else (Unhandled e, w)
                | Inr (JStr ip, JStr attack_type) \<Rightarrow>
                    (Responded (json_response 200
                       (JObj [(''status'', JStr (''Attack from IP '' @ ip @ '' logged''))])),
                     w\<lparr>ledger := log_attack ip attack_type (ledger w)\<rparr>)
                | Inr _ \<Rightarrow> (Unspecified, w))))"

definition test_attacks :: "(string \<times> string) list" where
  "test_attacks =
     [(''1.1.1.1'', ''DoS Test''), (''2.2.2.2'', ''DoS Test''), (''3.3.3.3'', ''DoS Test''),
      (''4.4.4.4'', ''DoS Test''), (''5.5.5.5'', ''DoS Test'')]"

definition add_test_attacks :: "ledger \<Rightarrow> ledger" where
  "add_test_attacks l = foldl (\<lambda>l (ip, attack_type). log_attack ip attack_type l) l test_attacks"

definition post_add_test_attacks :: "world \<Rightarrow> outcome \<times> world" where
  "post_add_test_attacks w =
     (Responded (json_response 200 (JObj [(''message'', JStr ''Test attacks added successfully'')])),
      w\<lparr>ledger := add_test_attacks (ledger w)\<rparr>)"

definition do_POST :: "source \<Rightarrow> handler \<Rightarrow> world \<Rightarrow> outcome \<times> world" where
  "do_POST src self0 w =
     (case load_blacklist w self0 of
        Inl e \<Rightarrow> (Unhandled e, w)
      | Inr self \<Rightarrow>
      if client_ip_blocked self then (Responded access_denied, w)
      else if path self = ''/blacklist/set-interval'' then post_set_interval self w
      else if path self = ''/blacklist/update'' then post_update src w
      else if path self = ''/blacklist/clear'' then post_clear w
      else if path self = ''/blacklist/log'' then post_log self w
      else if path self = ''/blacklist/addTestAttacks'' then post_add_test_attacks w
      else (Responded not_found, w))"

subsection \<open>\<open>do_DELETE\<close>\<close>

text \<open>\<open>except ValueError\<close> catches \<open>ValueError\<close> and the classes derived from it.\<close>

fun is_ValueError :: "pyexc \<Rightarrow> bool" where
  "is_ValueError InvalidLiteral = True"
| "is_ValueError ExceedsDigitLimit = True"
| "is_ValueError (ValueError _) = True"
| "is_ValueError JSONDecodeError = True"
| "is_ValueError UnicodeDecodeError = True"
| "is_ValueError _ = False"

definition path_parts_of :: "string \<Rightarrow> string list" where
  "path_parts_of parsed_path = split_char CHR ''/'' (strip_char CHR ''/'' parsed_path)"

definition do_DELETE :: "handler \<Rightarrow> world \<Rightarrow> outcome \<times> world" where
  "do_DELETE self w =
     (case urlparse_path (path self) of
        UrlError \<Rightarrow> (Unhandled (ValueError ''Invalid IPv6 URL''), w)
      | UrlBracketedHost \<Rightarrow> (Unspecified, w)
      | UrlPath parsed_path \<Rightarrow>
     (let path_parts = path_parts_of parsed_path in
      if length path_parts = 3 \<and> path_parts ! 0 = ''blacklist'' \<and> path_parts ! 1 = ''delete'' then
        (case int_of_str (path_parts ! 2) of
           Inl e \<Rightarrow>
             if is_ValueError e
             then (Responded (json_response 400 (JObj [(''error'', JStr ''Index must be an integer'')])), w)
             else (Unhandled e, w)
         | Inr index \<Rightarrow>
             (let (success, l) = delete_attack index (ledger w) in
              if success
              then (Responded (json_response 200
                      (JObj [(''message'', JStr (''Attack at index '' @ str_int index @ '' deleted''))])),
                    w\<lparr>ledger := l\<rparr>)
              else (Responded (json_response 404
                      (JObj [(''error'', JStr (''No attack found at index '' @ str_int index))])),
                    w\<lparr>ledger := l\<rparr>)))
      else (Responded (send_error 404 (Text ''Path not found'')), w)))"

text \<open>The verbs the class has a method for, and the dispatch on them.\<close>

datatype verb = GET | POST | DELETE

fun handle :: "source \<Rightarrow> verb \<Rightarrow> handler \<Rightarrow> world \<Rightarrow> outcome \<times> world" where
  "handle src GET self w = do_GET self w"
| "handle src POST self w = do_POST src self w"
| "handle src DELETE self w = do_DELETE self w"

section \<open>\<open>periodic_update\<close> and shutdown\<close>

text \<open>
  \<open>Event.wait(timeout)\<close> on an event with the given flag: it returns \<open>True\<close> as soon as the
  flag is set, \<open>False\<close> once the timeout has run out, and blocks otherwise.
\<close>

definition event_wait :: "bool \<Rightarrow> bool \<Rightarrow> bool option" where
  "event_wait flag timed_out = (if flag then Some True else if timed_out then Some False else None)"

text \<open>
  Where the update thread stands: at the test of the \<open>while\<close> loop, inside
  \<open>stop_event.wait(timeout=t)\<close> with the timeout \<open>t\<close> the call was given, returned from
  \<open>periodic_update\<close>, or dead of an exception nothing caught.
\<close>

datatype thread = LoopTest | Blocked int | Returned | Uncaught pyexc

text \<open>
  \<open>threading.TIMEOUT_MAX\<close> of a 64-bit POSIX build: \<open>wait\<close> on an event that is not set
  raises \<open>OverflowError\<close> for a longer timeout. The format \<open>:.2f\<close> turns the interval into
  a float first, which raises \<open>OverflowError\<close> for an integer that rounds beyond the
  largest double.
\<close>

definition TIMEOUT_MAX :: int where
  "TIMEOUT_MAX = 9223372036"

definition float_overflow :: "int \<Rightarrow> bool" where
  "float_overflow i = (2 ^ 1024 - 2 ^ 970 \<le> \<bar>i\<bar>)"

text \<open>
  The two statements after the \<open>try\<close>: the line that is printed and the call of \<open>wait\<close>,
  neither inside a \<open>try\<close>.
\<close>

definition enter_wait :: "world \<Rightarrow> thread \<times> world" where
  "enter_wait w =
     (if float_overflow (auto_update_interval w) then (Uncaught OverflowError, w)
      else
        (let w1 = print (InfoWaiting (auto_update_interval w)) w in
         if stop_event w1 then (Returned, w1)
         else if TIMEOUT_MAX < auto_update_interval w1 then (Uncaught OverflowError, w1)
         else (Blocked (auto_update_interval w1), w1)))"

text \<open>From the loop test to the call of \<open>wait\<close>.\<close>

definition loop_body :: "source \<Rightarrow> world \<Rightarrow> thread \<times> world" where
  "loop_body src w =
     (if stop_event w then (Returned, w)
      else
        (let w1 = print InfoRunning w in
         case fetch_blacklist src (ledger w1) of
           Inr l \<Rightarrow> enter_wait (w1\<lparr>ledger := l\<rparr>)
         | Inl e \<Rightarrow>
             if is_Exception e then enter_wait (print (ErrorUpdating e) w1)
             else (Uncaught e, w1)))"

text \<open>
  One step of the thread. \<open>timed_out\<close> tells whether the timeout of the pending wait has run
  out, which a timeout of zero or less has at once; the wait is on \<open>stop_event\<close>, and a
  \<open>True\<close> result breaks out of the loop.
\<close>

fun periodic_update_step :: "source \<Rightarrow> bool \<Rightarrow> thread \<times> world \<Rightarrow> thread \<times> world" where
  "periodic_update_step src timed_out (LoopTest, w) = loop_body src w"
| "periodic_update_step src timed_out (Blocked t, w) =
     (case event_wait (stop_event w) (timed_out \<or> t \<le> 0) of
        None \<Rightarrow> (Blocked t, w)
      | Some True \<Rightarrow> (Returned, w)
      | Some False \<Rightarrow> (LoopTest, w))"
| "periodic_update_step src timed_out (Returned, w) = (Returned, w)"
| "periodic_update_step src timed_out (Uncaught e, w) = (Uncaught e, w)"

text \<open>
  \<open>signal_handler\<close>, up to its \<open>exit(0)\<close>. The module's \<open>httpd\<close> is \<open>None\<close> (\<open>main\<close> binds a
  local of the same name), so the \<open>if httpd:\<close> block does not run.
\<close>

definition signal_handler :: "world \<Rightarrow> world" where
  "signal_handler w =
     (let w1 = print InfoShuttingDown w;
          w2 = w1\<lparr>stop_event := True\<rparr>;
          w3 = w2\<lparr>auto_update_event := True\<rparr>
      in print InfoShutdownComplete w3)"

section \<open>Notions of the specification\<close>

text \<open>
  The access gate as a request meets it: the cache is refreshed on the request's behalf
  and the caller's address is looked up in it.
\<close>

definition caller_blocked :: "world \<Rightarrow> handler \<Rightarrow> bool" where
  "caller_blocked w self0 =
     (case load_blacklist w self0 of Inl e \<Rightarrow> False | Inr self \<Rightarrow> client_ip_blocked self)"

text \<open>
  The structured error body of the specification: a JSON object of the form
  \<open>{"error": <message>}\<close>.
\<close>

fun is_error_object :: "body \<Rightarrow> bool" where
  "is_error_object (Json (JObj [(k, JStr msg)])) = (k = ''error'')"
| "is_error_object _ = False"

text \<open>Whether a parsed body is a JSON object, the only value with a \<open>get\<close> method.\<close>

fun is_dict :: "json \<Rightarrow> bool" where
  "is_dict (JObj data) = True"
| "is_dict _ = False"

section \<open>Sample states and requests\<close>

text \<open>
  The module as it starts (interval 30, both events clear), over a ledger that holds one
  record, for the address 1.1.1.1.
\<close>

definition sample_world :: world where
  "sample_world =
     \<lparr>auto_update_interval = 30, auto_update_event = False, stop_event = False,
      FRONTEND_HTML = ''<html></html>'',
      ledger = [[(''ip'', FStr ''1.1.1.1''), (''attack_type'', FStr ''DoS Test'')]],
      stdout = []\<rparr>"

text \<open>A chain that answers every resync with what the ledger already holds, and one that is down.\<close>

definition steady_source :: source where
  "steady_source = \<lparr>fetch_blacklist = (\<lambda>l. Inr l), force_update = (\<lambda>l. Inr l)\<rparr>"

definition broken_source :: source where
  "broken_source =
     \<lparr>fetch_blacklist = (\<lambda>l. Inl (LedgerFailure ''node unreachable'')),
      force_update = (\<lambda>l. Inl (LedgerFailure ''node unreachable''))\<rparr>"

text \<open>A fresh handler object; \<open>blacklist_ips\<close> starts as the class attribute \<open>set()\<close>.\<close>

definition request :: "string \<Rightarrow> string \<Rightarrow> string option \<Rightarrow> payload \<Rightarrow> handler" where
  "request ip target len p =
     \<lparr>client_address = ip, path = target, content_length = len, rfile = p, blacklist_ips = {}\<rparr>"

text \<open>A ledger whose second record has no \<open>ip\<close> key.\<close>

definition mixed_ledger :: ledger where
  "mixed_ledger =
     [[(''ip'', FStr ''1.1.1.1''), (''attack_type'', FStr ''DoS Test'')],
      [(''attack_type'', FStr ''Scan'')],
      [(''attack_type'', FStr ''Scan''), (''ip'', FStr ''2.2.2.2'')]]"

section \<open>Auxiliary facts\<close>

lemma in_keys_iff: "(k \<in> fst ` set attack) = (map_of attack k \<noteq> None)"
  by (simp add: map_of_eq_None_iff)

lemma ip_values_total:
  "ip_values attacks =
     Inr (map (\<lambda>attack. the (map_of attack ''ip'')) (filter (\<lambda>attack. map_of attack ''ip'' \<noteq> None) attacks))"
proof (induction attacks)
  case Nil
  show ?case by simp
next
  case (Cons attack attacks)
  show ?case
  proof (cases "map_of attack ''ip''")
    case None
    then have "''ip'' \<notin> fst ` set attack" by (simp add: in_keys_iff)
    with None Cons show ?thesis by simp
  next
    case (Some v)
    then have "''ip'' \<in> fst ` set attack" by (simp add: in_keys_iff)
    with Some Cons show ?thesis by (simp add: subscript_def)
  qed
qed

lemma set_ip_values:
  "set (map (\<lambda>attack. the (map_of attack ''ip'')) (filter (\<lambda>attack. map_of attack ''ip'' \<noteq> None) attacks))
     = {v. \<exists>attack \<in> set attacks. map_of attack ''ip'' = Some v}"
  by (auto simp: image_iff) force

lemma load_blacklist_Inr:
  "\<exists>ips. load_blacklist w self = Inr (self\<lparr>blacklist_ips := ips\<rparr>)"
  unfolding load_blacklist_def Let_def ip_values_total by (simp only: sum.case) blast

lemma int_of_digits_error: "int_of_digits ds = Inl e \<Longrightarrow> e = InvalidLiteral \<or> e = ExceedsDigitLimit"
  by (auto simp: int_of_digits_def split: if_splits)

lemma int_of_str_error: "int_of_str s = Inl e \<Longrightarrow> e = InvalidLiteral \<or> e = ExceedsDigitLimit"
  by (cases "strip_space s")
     (auto simp: int_of_str_def map_sum_def split: if_splits sum.splits dest: int_of_digits_error)


lemma rfile_read_payload: "rfile_read self n = Inr p \<Longrightarrow> p \<noteq> ReadRaises e"
  by (auto simp: rfile_read_def split: if_splits payload.splits)

lemma rfile_read_cache [simp]:
  "rfile_read (self\<lparr>blacklist_ips := ips\<rparr>) n = rfile_read self n"
  by (simp add: rfile_read_def)

lemma header_length_cache [simp]:
  "header_length (self\<lparr>blacklist_ips := ips\<rparr>) = header_length self"
  by (simp add: header_length_def)

lemma json_loads_Inr: "json_loads p = Inr v \<Longrightarrow> p = Parsed v \<and> loadable v"
  by (cases p) (auto simp: json_loads_def split: if_splits)

lemma json_loads_error:
  assumes "json_loads p = Inl e" "\<forall>x. p \<noteq> ReadRaises x"
  shows "is_Exception e"
  using assms by (cases p) (auto simp: json_loads_def split: if_splits)


lemma log_fields_of_error:
  assumes "log_fields_of p = Inl e" "\<forall>x. p \<noteq> ReadRaises x"
  shows "is_Exception e"
proof (cases "json_loads p")
  case (Inl e')
  with assms show ?thesis by (auto simp: log_fields_of_def dest: json_loads_error)
next
  case (Inr v)
  with assms(1) show ?thesis
    by (cases v) (auto simp: log_fields_of_def Let_def split: if_splits)
qed

lemma post_set_interval_cache [simp]:
  "post_set_interval (self\<lparr>blacklist_ips := ips\<rparr>) w = post_set_interval self w"
  by (simp add: post_set_interval_def cong: sum.case_cong if_cong)

lemma post_log_cache [simp]:
  "post_log (self\<lparr>blacklist_ips := ips\<rparr>) w = post_log self w"
  by (simp add: post_log_def cong: sum.case_cong if_cong)

lemma do_POST_blocked:
  assumes "caller_blocked w self0"
  shows "do_POST src self0 w = (Responded access_denied, w)"
proof -
  obtain ips where l: "load_blacklist w self0 = Inr (self0\<lparr>blacklist_ips := ips\<rparr>)"
    using load_blacklist_Inr by blast
  with assms have "client_ip_blocked (self0\<lparr>blacklist_ips := ips\<rparr>)"
    by (simp add: caller_blocked_def)
  with l show ?thesis by (simp add: do_POST_def)
qed

lemma do_GET_blocked:
  assumes "caller_blocked w self0"
  shows "do_GET self0 w = (Responded access_denied, w)"
proof -
  obtain ips where l: "load_blacklist w self0 = Inr (self0\<lparr>blacklist_ips := ips\<rparr>)"
    using load_blacklist_Inr by blast
  with assms have "client_ip_blocked (self0\<lparr>blacklist_ips := ips\<rparr>)"
    by (simp add: caller_blocked_def)
  with l show ?thesis by (simp add: do_GET_def)
qed

lemma do_POST_admitted:
  assumes "\<not> caller_blocked w self0"
  shows "do_POST src self0 w =
     (if path self0 = ''/blacklist/set-interval'' then post_set_interval self0 w
      else if path self0 = ''/blacklist/update'' then post_update src w
      else if path self0 = ''/blacklist/clear'' then post_clear w
      else if path self0 = ''/blacklist/log'' then post_log self0 w
      else if path self0 = ''/blacklist/addTestAttacks'' then post_add_test_attacks w
      else (Responded not_found, w))"
proof -
  obtain ips where l: "load_blacklist w self0 = Inr (self0\<lparr>blacklist_ips := ips\<rparr>)"
    using load_blacklist_Inr by blast
  with assms have "\<not> client_ip_blocked (self0\<lparr>blacklist_ips := ips\<rparr>)"
    by (simp add: caller_blocked_def)
  with l show ?thesis by (simp add: do_POST_def)
qed

lemma read_then_loads:
  assumes "rfile_read self len = Inr p" "json_loads p = Inr v"
  shows "len \<noteq> 0 \<and> p \<noteq> Undecodable"
  using assms by (auto simp: rfile_read_def json_loads_def split: if_splits)

lemma post_set_interval_accepts:
  assumes "header_length self = Inr len" "rfile_read self len = Inr p"
    and "json_loads p = Inr (JObj data)"
    and "py_int (dict_get data ''interval'' (JInt 0)) = Inr k" "1 \<le> k"
  shows "post_set_interval self w =
     (Responded (json_response 200 (JObj [(''status'', JStr ''success''), (''new_interval'', JInt k)])),
      w\<lparr>auto_update_interval := k, stdout := stdout w @ [InfoIntervalSet k], auto_update_event := True\<rparr>)"
proof -
  from assms(2,3) have "len \<noteq> 0" "p \<noteq> Undecodable" using read_then_loads by blast+
  moreover have "new_interval_of p = Inr k"
    using assms(3,4,5) by (simp add: new_interval_of_def)
  ultimately show ?thesis
    using assms(1,2) by (simp add: post_set_interval_def print_def)
qed


lemma dict_get_Some: "map_of d k = Some v \<Longrightarrow> dict_get d k dflt = v"
  by (simp add: dict_get_def)

lemma dict_get_None: "map_of d k = None \<Longrightarrow> dict_get d k dflt = dflt"
  by (simp add: dict_get_def)

lemma print_fields [simp]:
  "ledger (print line w) = ledger w"
  "stop_event (print line w) = stop_event w"
  "auto_update_interval (print line w) = auto_update_interval w"
  "auto_update_event (print line w) = auto_update_event w"
  by (simp_all add: print_def)

lemma float_overflow_bounded: "1 \<le> i \<Longrightarrow> i \<le> TIMEOUT_MAX \<Longrightarrow> \<not> float_overflow i"
  by (simp add: float_overflow_def TIMEOUT_MAX_def)

lemma enter_wait_blocks:
  assumes "\<not> stop_event w" "1 \<le> auto_update_interval w" "auto_update_interval w \<le> TIMEOUT_MAX"
  shows "enter_wait w
     = (Blocked (auto_update_interval w), w\<lparr>stdout := stdout w @ [InfoWaiting (auto_update_interval w)]\<rparr>)"
proof -
  have "\<not> float_overflow (auto_update_interval w)"
    using assms(2,3) by (rule float_overflow_bounded)
  with assms(1,3) show ?thesis by (simp add: enter_wait_def print_def Let_def)
qed

lemma enter_wait_overflow:
  assumes "\<not> stop_event w" "TIMEOUT_MAX < auto_update_interval w" "\<not> float_overflow (auto_update_interval w)"
  shows "enter_wait w
     = (Uncaught OverflowError, w\<lparr>stdout := stdout w @ [InfoWaiting (auto_update_interval w)]\<rparr>)"
  using assms by (simp add: enter_wait_def print_def Let_def)

lemma loop_body_waits:
  assumes "\<not> stop_event w" "\<forall>e. fetch_blacklist src (ledger w) = Inl e \<longrightarrow> is_Exception e"
    and "1 \<le> auto_update_interval w" "auto_update_interval w \<le> TIMEOUT_MAX"
  shows "fst (loop_body src w) = Blocked (auto_update_interval w)"
proof (cases "fetch_blacklist src (ledger w)")
  case (Inl e)
  with assms(2) have "is_Exception e" by simp
  moreover have "enter_wait (print (ErrorUpdating e) (print InfoRunning w))
      = (Blocked (auto_update_interval w),
         (print (ErrorUpdating e) (print InfoRunning w))
           \<lparr>stdout := stdout (print (ErrorUpdating e) (print InfoRunning w)) @ [InfoWaiting (auto_update_interval w)]\<rparr>)"
    using enter_wait_blocks [of "print (ErrorUpdating e) (print InfoRunning w)"] assms(1,3,4)
    by (simp add: print_def)
  ultimately show ?thesis using Inl assms(1) by (simp add: loop_body_def Let_def print_def)
next
  case (Inr l)
  have "enter_wait ((print InfoRunning w)\<lparr>ledger := l\<rparr>)
      = (Blocked (auto_update_interval w),
         ((print InfoRunning w)\<lparr>ledger := l\<rparr>)
           \<lparr>stdout := stdout ((print InfoRunning w)\<lparr>ledger := l\<rparr>) @ [InfoWaiting (auto_update_interval w)]\<rparr>)"
    using enter_wait_blocks [of "(print InfoRunning w)\<lparr>ledger := l\<rparr>"] assms(1,3,4)
    by (simp add: print_def)
  then show ?thesis using Inr assms(1) by (simp add: loop_body_def Let_def print_def)
qed

lemma post_log_rejects:
  assumes "header_length self = Inr len" "rfile_read self len = Inr p" "log_fields_of p = Inl e"
  shows "post_log self w =
     (Responded (json_response 400 (JObj [(''error'', JStr ''Invalid JSON or missing fields'')])), w)"
proof -
  have "\<forall>x. p \<noteq> ReadRaises x" using assms(2) rfile_read_payload by blast
  with assms(3) have "is_Exception e" by (rule log_fields_of_error)
  with assms show ?thesis by (simp add: post_log_def)
qed

lemma post_log_accepts:
  assumes "header_length self = Inr len" "rfile_read self len = Inr p"
    and "json_loads p = Inr (JObj data)"
    and "map_of data ''ip'' = Some (JStr ip)" "ip \<noteq> []"
    and "map_of data ''attack_type'' = Some (JStr attack_type)" "attack_type \<noteq> []"
  shows "post_log self w =
     (Responded (json_response 200 (JObj [(''status'', JStr (''Attack from IP '' @ ip @ '' logged''))])),
      w\<lparr>ledger := log_attack ip attack_type (ledger w)\<rparr>)"
  using assms by (simp add: post_log_def log_fields_of_def dict_get_Some)

lemma log_fields_of_falsy:
  assumes "json_loads p = Inr (JObj data)"
    and "\<not> truthy (dict_get data ''ip'' JNull) \<or> \<not> truthy (dict_get data ''attack_type'' JNull)"
  shows "log_fields_of p = Inl (ValueError ''Missing ip or attack_type'')"
  using assms by (auto simp: log_fields_of_def)

lemma log_fields_of_not_dict:
  assumes "json_loads p = Inr v" "\<not> is_dict v"
  shows "\<exists>e. log_fields_of p = Inl e"
  using assms by (cases v) (auto simp: log_fields_of_def)

lemma is_ValueError_literal: "int_of_str s = Inl e \<Longrightarrow> is_ValueError e"
  by (auto dest: int_of_str_error)

lemma do_DELETE_route:
  assumes "urlparse_path (path self) = UrlPath parsed_path"
    and "path_parts_of parsed_path = [''blacklist'', ''delete'', s]"
  shows "do_DELETE self w =
     (case int_of_str s of
        Inl e \<Rightarrow> (Responded (json_response 400 (JObj [(''error'', JStr ''Index must be an integer'')])), w)
      | Inr index \<Rightarrow>
          if fst (delete_attack index (ledger w))
          then (Responded (json_response 200
                  (JObj [(''message'', JStr (''Attack at index '' @ str_int index @ '' deleted''))])),
                w\<lparr>ledger := snd (delete_attack index (ledger w))\<rparr>)
          else (Responded (json_response 404
                  (JObj [(''error'', JStr (''No attack found at index '' @ str_int index))])),
                w\<lparr>ledger := snd (delete_attack index (ledger w))\<rparr>))"
  using assms
  by (auto simp: do_DELETE_def Let_def split: sum.splits prod.splits dest: is_ValueError_literal)

lemma loop_body_failure:
  assumes "\<not> stop_event w" "fetch_blacklist src (ledger w) = Inl e" "is_Exception e"
    and "1 \<le> auto_update_interval w" "auto_update_interval w \<le> TIMEOUT_MAX"
  shows "loop_body src w =
     (Blocked (auto_update_interval w),
      w\<lparr>stdout := stdout w @ [InfoRunning, ErrorUpdating e, InfoWaiting (auto_update_interval w)]\<rparr>)"
proof -
  have "enter_wait (print (ErrorUpdating e) (print InfoRunning w))
      = (Blocked (auto_update_interval w),
         w\<lparr>stdout := stdout w @ [InfoRunning, ErrorUpdating e, InfoWaiting (auto_update_interval w)]\<rparr>)"
    using enter_wait_blocks [of "print (ErrorUpdating e) (print InfoRunning w)"] assms(1,4,5)
    by (simp add: print_def)
  then show ?thesis using assms(1,2,3) by (simp add: loop_body_def Let_def)
qed

lemma loop_body_success:
  assumes "\<not> stop_event w" "fetch_blacklist src (ledger w) = Inr l"
    and "1 \<le> auto_update_interval w" "auto_update_interval w \<le> TIMEOUT_MAX"
  shows "ledger (snd (loop_body src w)) = l"
proof -
  have "enter_wait ((print InfoRunning w)\<lparr>ledger := l\<rparr>)
      = (Blocked (auto_update_interval w),
         ((print InfoRunning w)\<lparr>ledger := l\<rparr>)
           \<lparr>stdout := stdout ((print InfoRunning w)\<lparr>ledger := l\<rparr>) @ [InfoWaiting (auto_update_interval w)]\<rparr>)"
    using enter_wait_blocks [of "(print InfoRunning w)\<lparr>ledger := l\<rparr>"] assms(1,3,4)
    by (simp add: print_def)
  then show ?thesis using assms(1,2) by (simp add: loop_body_def Let_def print_def)
qed

lemma load_blacklist_stdout [simp]:
  "load_blacklist (w\<lparr>stdout := out\<rparr>) self = load_blacklist w self"
  by (simp add: load_blacklist_def)

section \<open>The access gate\<close>

text \<open>
  Claim C1. Every inbound request, whatever its verb and path and \<open>DELETE
  /blacklist/delete/{index}\<close> included, has the cache refreshed and the caller looked up
  before anything is dispatched, and a blocked caller gets 403 with the access-denied
  payload. \<open>do_GET\<close> and \<open>do_POST\<close> do so; \<open>do_DELETE\<close> does neither. Here the caller
  1.1.1.1 is in the ledger: its GET and POST of the target are refused and leave the state
  alone, its DELETE of the same target is carried out and removes the record.
\<close>

theorem delete_skips_access_gate:
  "caller_blocked sample_world (request ''1.1.1.1'' ''/blacklist/delete/0'' None Malformed)
   \<and> handle steady_source GET (request ''1.1.1.1'' ''/blacklist/delete/0'' None Malformed) sample_world
       = (Responded access_denied, sample_world)
   \<and> handle steady_source POST (request ''1.1.1.1'' ''/blacklist/delete/0'' None Malformed) sample_world
       = (Responded access_denied, sample_world)
   \<and> handle steady_source DELETE (request ''1.1.1.1'' ''/blacklist/delete/0'' None Malformed) sample_world
       = (Responded (json_response 200 (JObj [(''message'', JStr ''Attack at index 0 deleted'')])),
          sample_world\<lparr>ledger := []\<rparr>)"
  by code_simp

text \<open>
  Claim C9. Whatever the ledger read returns, \<open>load_blacklist\<close> does not raise and leaves
  in \<open>blacklist_ips\<close> exactly the \<open>ip\<close> values of the records that have an \<open>ip\<close> key; the
  records without one contribute nothing.
\<close>

theorem load_blacklist_snapshot:
  "load_blacklist w self =
     Inr (self\<lparr>blacklist_ips :=
            {v. \<exists>attack \<in> set (get_blacklist (ledger w)). map_of attack ''ip'' = Some v}\<rparr>)"
  unfolding load_blacklist_def Let_def ip_values_total by (simp only: sum.case set_ip_values)

theorem load_blacklist_snapshot_witness:
  "\<exists>self. load_blacklist (sample_world\<lparr>ledger := mixed_ledger\<rparr>) (request ''9.9.9.9'' ''/'' None Malformed)
            = Inr self
        \<and> blacklist_ips self = {FStr ''1.1.1.1'', FStr ''2.2.2.2''}"
  using load_blacklist_snapshot
          [of "sample_world\<lparr>ledger := mixed_ledger\<rparr>" "request ''9.9.9.9'' ''/'' None Malformed"]
  by (auto simp: get_blacklist_def mixed_ledger_def)

section \<open>The refresh interval and the update thread\<close>

text \<open>
  Claim C2. When \<open>POST /blacklist/set-interval\<close> changes the interval while the update
  thread waits, the wait in progress is interrupted by the interval-change signal. The
  handler sets \<open>auto_update_event\<close> ("wake the thread so that it takes the new interval",
  says its comment), but the thread waits on \<open>stop_event\<close>: with the thread inside
  \<open>wait(timeout=30)\<close>, the request is answered 200 and sets interval and event, and the
  thread's next step, its timeout not yet run out, finds it in the same wait of 30. Setting
  \<open>stop_event\<close>, as \<open>signal_handler\<close> does, is what ends the wait.
\<close>

theorem set_interval_leaves_wait_pending:
  "do_POST steady_source
      (request ''9.9.9.9'' ''/blacklist/set-interval'' (Some ''15'') (Parsed (JObj [(''interval'', JInt 5)])))
      sample_world
     = (Responded (json_response 200 (JObj [(''status'', JStr ''success''), (''new_interval'', JInt 5)])),
        sample_world\<lparr>auto_update_interval := 5, auto_update_event := True, stdout := [InfoIntervalSet 5]\<rparr>)
   \<and> periodic_update_step steady_source False
        (Blocked 30, sample_world\<lparr>auto_update_interval := 5, auto_update_event := True, stdout := [InfoIntervalSet 5]\<rparr>)
     = (Blocked 30, sample_world\<lparr>auto_update_interval := 5, auto_update_event := True, stdout := [InfoIntervalSet 5]\<rparr>)
   \<and> fst (periodic_update_step steady_source False (Blocked 30, signal_handler sample_world)) = Returned"
  by code_simp


text \<open>
  Claim C5. A \<open>POST /blacklist/set-interval\<close> with an integer interval \<open>n >= 1\<close> from a caller
  that is not blocked is answered 200 with the new interval, sets the interval to \<open>n\<close>, and
  the wait the update thread enters next uses \<open>n\<close>. The handler tests the interval against
  1 only. The interval 10000000000 is answered 200 and stored; when the pending wait of 30
  has timed out, the thread's next pass prints its two lines and calls
  \<open>stop_event.wait(timeout=10000000000)\<close>, which is more than \<open>threading.TIMEOUT_MAX\<close>:
  the call raises \<open>OverflowError\<close> outside the \<open>try\<close>, and the thread, which its docstring
  has running until \<open>stop_event\<close> is set, is dead.
\<close>

theorem huge_interval_kills_update_thread:
  "do_POST steady_source
      (request ''9.9.9.9'' ''/blacklist/set-interval'' (Some ''25'')
         (Parsed (JObj [(''interval'', JInt 10000000000)])))
      sample_world
     = (Responded (json_response 200
          (JObj [(''status'', JStr ''success''), (''new_interval'', JInt 10000000000)])),
        sample_world\<lparr>auto_update_interval := 10000000000, auto_update_event := True,
                      stdout := [InfoIntervalSet 10000000000]\<rparr>)
   \<and> periodic_update_step steady_source True
        (Blocked 30, sample_world\<lparr>auto_update_interval := 10000000000, auto_update_event := True,
                                  stdout := [InfoIntervalSet 10000000000]\<rparr>)
     = (LoopTest, sample_world\<lparr>auto_update_interval := 10000000000, auto_update_event := True,
                                stdout := [InfoIntervalSet 10000000000]\<rparr>)
   \<and> periodic_update_step steady_source False
        (LoopTest, sample_world\<lparr>auto_update_interval := 10000000000, auto_update_event := True,
                                stdout := [InfoIntervalSet 10000000000]\<rparr>)
     = (Uncaught OverflowError,
        sample_world\<lparr>auto_update_interval := 10000000000, auto_update_event := True,
                      stdout := [InfoIntervalSet 10000000000, InfoRunning, InfoWaiting 10000000000]\<rparr>)"
proof (intro conjI)
  show "do_POST steady_source
      (request ''9.9.9.9'' ''/blacklist/set-interval'' (Some ''25'')
         (Parsed (JObj [(''interval'', JInt 10000000000)])))
      sample_world
     = (Responded (json_response 200
          (JObj [(''status'', JStr ''success''), (''new_interval'', JInt 10000000000)])),
        sample_world\<lparr>auto_update_interval := 10000000000, auto_update_event := True,
                      stdout := [InfoIntervalSet 10000000000]\<rparr>)"
    by code_simp
  show "periodic_update_step steady_source True
        (Blocked 30, sample_world\<lparr>auto_update_interval := 10000000000, auto_update_event := True,
                                  stdout := [InfoIntervalSet 10000000000]\<rparr>)
     = (LoopTest, sample_world\<lparr>auto_update_interval := 10000000000, auto_update_event := True,
                                stdout := [InfoIntervalSet 10000000000]\<rparr>)"
    by code_simp
  show "periodic_update_step steady_source False
        (LoopTest, sample_world\<lparr>auto_update_interval := 10000000000, auto_update_event := True,
                                stdout := [InfoIntervalSet 10000000000]\<rparr>)
     = (Uncaught OverflowError,
        sample_world\<lparr>auto_update_interval := 10000000000, auto_update_event := True,
                      stdout := [InfoIntervalSet 10000000000, InfoRunning, InfoWaiting 10000000000]\<rparr>)"
    by (simp add: loop_body_def enter_wait_def float_overflow_def TIMEOUT_MAX_def print_def Let_def
          steady_source_def sample_world_def)
qed

text \<open>
  Up to \<open>threading.TIMEOUT_MAX\<close> the claim holds: for a request that the handler reads, with
  an integer interval \<open>n\<close> from 1 to that bound, the answer is 200 with \<open>n\<close>, the interval
  is \<open>n\<close>, and the wait that the thread enters after its pending wait has the timeout \<open>n\<close>.
\<close>

lemma set_interval_accepted:
  assumes "\<not> caller_blocked w self0"
    and "path self0 = ''/blacklist/set-interval''"
    and "header_length self0 = Inr len" and "rfile_read self0 len = Inr p"
    and "json_loads p = Inr (JObj data)"
    and "map_of data ''interval'' = Some (JInt n)" and "1 \<le> n" and "n \<le> TIMEOUT_MAX"
    and "\<not> stop_event w"
    and "\<forall>e. fetch_blacklist src' (ledger w) = Inl e \<longrightarrow> is_Exception e"
  shows "fst (do_POST src self0 w)
           = Responded (json_response 200 (JObj [(''status'', JStr ''success''), (''new_interval'', JInt n)]))
       \<and> auto_update_interval (snd (do_POST src self0 w)) = n
       \<and> fst (periodic_update_step src' b
                (periodic_update_step src' True (Blocked t, snd (do_POST src self0 w)))) = Blocked n"
proof -
  let ?w' = "w\<lparr>auto_update_interval := n, stdout := stdout w @ [InfoIntervalSet n], auto_update_event := True\<rparr>"
  have conv: "py_int (dict_get data ''interval'' (JInt 0)) = Inr n"
    using assms(6) by (simp add: dict_get_Some)
  have "do_POST src self0 w = post_set_interval self0 w"
    using assms(1,2) by (simp add: do_POST_admitted)
  also have "\<dots> = (Responded (json_response 200 (JObj [(''status'', JStr ''success''), (''new_interval'', JInt n)])), ?w')"
    using assms(3,4,5) conv assms(7) by (rule post_set_interval_accepts)
  finally have post: "do_POST src self0 w
      = (Responded (json_response 200 (JObj [(''status'', JStr ''success''), (''new_interval'', JInt n)])), ?w')" .
  have "\<not> stop_event ?w'" using assms(9) by simp
  moreover have "\<forall>e. fetch_blacklist src' (ledger ?w') = Inl e \<longrightarrow> is_Exception e"
    using assms(10) by simp
  moreover have "1 \<le> auto_update_interval ?w'" "auto_update_interval ?w' \<le> TIMEOUT_MAX"
    using assms(7,8) by simp_all
  ultimately have "fst (loop_body src' ?w') = Blocked (auto_update_interval ?w')"
    by (rule loop_body_waits)
  moreover have "periodic_update_step src' True (Blocked t, ?w') = (LoopTest, ?w')"
    using assms(9) by (simp add: event_wait_def)
  ultimately show ?thesis using post by simp
qed







text \<open>
  Claim C6. In every cycle of the update thread, a failure of the bulk refresh is caught
  and logged, does not leave the loop, leaves the blacklist as it was, and the loop goes
  on to its wait and tries again in the next cycle. With the interval 10000000000, which
  \<open>POST /blacklist/set-interval\<close> stores, the failure is caught and logged as the claim
  says, but the loop does not come to its wait: \<open>stop_event.wait\<close> raises \<open>OverflowError\<close>
  outside the \<open>try\<close>, the thread is dead and nothing is tried again. With the interval 30
  the same failure leaves the thread in its wait.
\<close>

theorem huge_interval_ends_retries:
  "do_POST steady_source
      (request ''9.9.9.9'' ''/blacklist/set-interval'' (Some ''25'')
         (Parsed (JObj [(''interval'', JInt 10000000000)])))
      sample_world
     = (Responded (json_response 200
          (JObj [(''status'', JStr ''success''), (''new_interval'', JInt 10000000000)])),
        sample_world\<lparr>auto_update_interval := 10000000000, auto_update_event := True,
                      stdout := [InfoIntervalSet 10000000000]\<rparr>)
   \<and> loop_body broken_source
        (sample_world\<lparr>auto_update_interval := 10000000000, auto_update_event := True,
                      stdout := [InfoIntervalSet 10000000000]\<rparr>)
     = (Uncaught OverflowError,
        sample_world\<lparr>auto_update_interval := 10000000000, auto_update_event := True,
                      stdout := [InfoIntervalSet 10000000000, InfoRunning,
                                 ErrorUpdating (LedgerFailure ''node unreachable''),
                                 InfoWaiting 10000000000]\<rparr>)
   \<and> periodic_update_step steady_source True
        (Uncaught OverflowError,
         sample_world\<lparr>auto_update_interval := 10000000000, auto_update_event := True,
                       stdout := [InfoIntervalSet 10000000000, InfoRunning,
                                  ErrorUpdating (LedgerFailure ''node unreachable''),
                                  InfoWaiting 10000000000]\<rparr>)
     = (Uncaught OverflowError,
        sample_world\<lparr>auto_update_interval := 10000000000, auto_update_event := True,
                      stdout := [InfoIntervalSet 10000000000, InfoRunning,
                                 ErrorUpdating (LedgerFailure ''node unreachable''),
                                 InfoWaiting 10000000000]\<rparr>)
   \<and> loop_body broken_source sample_world
     = (Blocked 30,
        sample_world\<lparr>stdout := [InfoRunning, ErrorUpdating (LedgerFailure ''node unreachable''),
                                 InfoWaiting 30]\<rparr>)"
proof (intro conjI)
  show "do_POST steady_source
      (request ''9.9.9.9'' ''/blacklist/set-interval'' (Some ''25'')
         (Parsed (JObj [(''interval'', JInt 10000000000)])))
      sample_world
     = (Responded (json_response 200
          (JObj [(''status'', JStr ''success''), (''new_interval'', JInt 10000000000)])),
        sample_world\<lparr>auto_update_interval := 10000000000, auto_update_event := True,
                      stdout := [InfoIntervalSet 10000000000]\<rparr>)"
    by code_simp
  show "loop_body broken_source
        (sample_world\<lparr>auto_update_interval := 10000000000, auto_update_event := True,
                      stdout := [InfoIntervalSet 10000000000]\<rparr>)
     = (Uncaught OverflowError,
        sample_world\<lparr>auto_update_interval := 10000000000, auto_update_event := True,
                      stdout := [InfoIntervalSet 10000000000, InfoRunning,
                                 ErrorUpdating (LedgerFailure ''node unreachable''),
                                 InfoWaiting 10000000000]\<rparr>)"
    by (simp add: loop_body_def enter_wait_def float_overflow_def TIMEOUT_MAX_def print_def Let_def
          broken_source_def sample_world_def)
  show "periodic_update_step steady_source True
        (Uncaught OverflowError,
         sample_world\<lparr>auto_update_interval := 10000000000, auto_update_event := True,
                       stdout := [InfoIntervalSet 10000000000, InfoRunning,
                                  ErrorUpdating (LedgerFailure ''node unreachable''),
                                  InfoWaiting 10000000000]\<rparr>)
     = (Uncaught OverflowError,
        sample_world\<lparr>auto_update_interval := 10000000000, auto_update_event := True,
                      stdout := [InfoIntervalSet 10000000000, InfoRunning,
                                 ErrorUpdating (LedgerFailure ''node unreachable''),
                                 InfoWaiting 10000000000]\<rparr>)"
    by simp
  show "loop_body broken_source sample_world
     = (Blocked 30,
        sample_world\<lparr>stdout := [InfoRunning, ErrorUpdating (LedgerFailure ''node unreachable''),
                                 InfoWaiting 30]\<rparr>)"
    by (simp add: loop_body_def enter_wait_def float_overflow_def TIMEOUT_MAX_def print_def Let_def
          broken_source_def sample_world_def)
qed

text \<open>
  With an interval from 1 to \<open>threading.TIMEOUT_MAX\<close> the claim holds. A failure is an
  exception of class \<open>Exception\<close> out of \<open>fetch_blacklist\<close>. After it the thread stands in its
  wait, the three lines are printed and nothing else of the state has changed, so that a
  request's \<open>load_blacklist\<close> finds the cache it would have found before; when the wait
  times out the thread is back at the loop test, and the next pass calls \<open>fetch_blacklist\<close>
  again and takes over what it then delivers.
\<close>

lemma refresh_failure_is_survived:
  assumes "\<not> stop_event w"
    and "fetch_blacklist src (ledger w) = Inl e"
    and "is_Exception e"
    and "1 \<le> auto_update_interval w" and "auto_update_interval w \<le> TIMEOUT_MAX"
  shows "loop_body src w
           = (Blocked (auto_update_interval w),
              w\<lparr>stdout := stdout w @ [InfoRunning, ErrorUpdating e, InfoWaiting (auto_update_interval w)]\<rparr>)
       \<and> load_blacklist (snd (loop_body src w)) self = load_blacklist w self
       \<and> periodic_update_step src' True (loop_body src w) = (LoopTest, snd (loop_body src w))
       \<and> (\<forall>l. fetch_blacklist src' (ledger w) = Inr l \<longrightarrow>
             fst (periodic_update_step src' b (periodic_update_step src' True (loop_body src w)))
               = Blocked (auto_update_interval w)
             \<and> ledger (snd (periodic_update_step src' b (periodic_update_step src' True (loop_body src w)))) = l)"
proof -
  let ?w1 = "w\<lparr>stdout := stdout w @ [InfoRunning, ErrorUpdating e, InfoWaiting (auto_update_interval w)]\<rparr>"
  have body: "loop_body src w = (Blocked (auto_update_interval w), ?w1)"
    using assms by (rule loop_body_failure)
  have running: "\<not> stop_event ?w1" using assms(1) by simp
  have bounds: "1 \<le> auto_update_interval ?w1" "auto_update_interval ?w1 \<le> TIMEOUT_MAX"
    using assms(4,5) by simp_all
  have wake: "periodic_update_step src' True (Blocked (auto_update_interval w), ?w1) = (LoopTest, ?w1)"
    using running by (simp add: event_wait_def)
  have retry: "fst (loop_body src' ?w1) = Blocked (auto_update_interval w) \<and> ledger (snd (loop_body src' ?w1)) = l"
    if "fetch_blacklist src' (ledger w) = Inr l" for l
  proof -
    from that have f: "fetch_blacklist src' (ledger ?w1) = Inr l" by simp
    then have "\<forall>e. fetch_blacklist src' (ledger ?w1) = Inl e \<longrightarrow> is_Exception e" by simp
    with running have "fst (loop_body src' ?w1) = Blocked (auto_update_interval ?w1)"
      using bounds by (rule loop_body_waits)
    moreover have "ledger (snd (loop_body src' ?w1)) = l"
      using running f bounds by (rule loop_body_success)
    ultimately show ?thesis by simp
  qed
  show ?thesis
    using body wake retry by simp
qed


section \<open>Error bodies\<close>

text \<open>
  Claim C3. Every error response, the 400 of an invalid set-interval request and the 404
  of an unknown route on any verb included, has a body of the form \<open>{"error": <message>}\<close>.
  The two 400s of \<open>/blacklist/set-interval\<close> and the 404 of \<open>do_DELETE\<close> for an unknown path
  go through \<open>send_error\<close>, whose body is the library's HTML page, where the 404 of
  \<open>do_GET\<close> and \<open>do_POST\<close> is such an object.
\<close>

theorem send_error_bodies_are_not_json:
  "do_POST steady_source (request ''9.9.9.9'' ''/blacklist/set-interval'' None Malformed) sample_world
     = (Responded (send_error 400 (Text ''No data received'')), sample_world)
   \<and> do_POST steady_source
        (request ''9.9.9.9'' ''/blacklist/set-interval'' (Some ''15'') (Parsed (JObj [(''interval'', JInt 0)])))
        sample_world
     = (Responded (send_error 400 (InvalidData (ValueError ''Interval must be >= 1''))), sample_world)
   \<and> do_DELETE (request ''9.9.9.9'' ''/nowhere'' None Malformed) sample_world
     = (Responded (send_error 404 (Text ''Path not found'')), sample_world)
   \<and> \<not> is_error_object (body (send_error 400 (Text ''No data received'')))
   \<and> \<not> is_error_object (body (send_error 400 (InvalidData (ValueError ''Interval must be >= 1''))))
   \<and> \<not> is_error_object (body (send_error 404 (Text ''Path not found'')))
   \<and> is_error_object (body not_found)"
  by code_simp

text \<open>
  Elsewhere the error bodies are such objects: every error response of \<open>do_GET\<close>, of
  \<open>do_POST\<close> on a path other than \<open>/blacklist/set-interval\<close>, and of \<open>do_DELETE\<close> on a path
  of the form \<open>/blacklist/delete/{index}\<close>.
\<close>


lemma do_GET_error_bodies:
  assumes "do_GET self0 w = (Responded r, w')" "400 \<le> status r"
  shows "is_error_object (body r)"
proof -
  obtain ips where l: "load_blacklist w self0 = Inr (self0\<lparr>blacklist_ips := ips\<rparr>)"
    using load_blacklist_Inr by blast
  from assms show ?thesis
    by (auto simp: do_GET_def l access_denied_def not_found_def json_response_def split: if_splits)
qed

lemma do_POST_error_bodies:
  assumes "do_POST src self0 w = (Responded r, w')" "400 \<le> status r"
    and "path self0 \<noteq> ''/blacklist/set-interval''"
  shows "is_error_object (body r)"
proof (cases "caller_blocked w self0")
  case True
  with assms show ?thesis by (auto simp: do_POST_blocked access_denied_def json_response_def)
next
  case False
  with assms show ?thesis
    by (auto simp: do_POST_admitted post_update_def post_clear_def post_log_def
          post_add_test_attacks_def not_found_def json_response_def Let_def
        split: if_splits sum.splits prod.splits json.splits)
qed

lemma do_DELETE_error_bodies:
  assumes "do_DELETE self w = (Responded r, w')" "400 \<le> status r"
    and "urlparse_path (path self) = UrlPath parsed_path"
    and "path_parts_of parsed_path = [''blacklist'', ''delete'', s]"
  shows "is_error_object (body r)"
  using assms(1,2)
  by (auto simp: do_DELETE_route [OF assms(3,4)] json_response_def split: sum.splits if_splits)

section \<open>Logging an attack\<close>

text \<open>
  Claim C8. A \<open>POST /blacklist/log\<close> whose body is not valid JSON, or lacks \<open>ip\<close> or
  \<open>attack_type\<close>, is answered 400 and appends nothing; otherwise the record is appended and
  the answer is 200. The handler tests \<open>not ip or not attack_type\<close>, so a body that is valid
  JSON and has both fields is still refused when one of them is empty.
\<close>

theorem log_rejects_empty_ip:
  "do_POST steady_source
      (request ''9.9.9.9'' ''/blacklist/log'' (Some ''37'')
         (Parsed (JObj [(''ip'', JStr ''''), (''attack_type'', JStr ''DoS Test'')])))
      sample_world
     = (Responded (json_response 400 (JObj [(''error'', JStr ''Invalid JSON or missing fields'')])),
        sample_world)"
  by code_simp

text \<open>
  Claim C8, amended. From a caller that is not blocked, when the \<open>Content-Length\<close> reads as
  a number and the read of that many bytes returns: if what was read is not valid JSON
  (as the empty text of a missing or zero length is not), is not a JSON object, or has
  \<open>ip\<close> or \<open>attack_type\<close> missing or falsy, the answer is 400 and nothing of the state
  changes; if it is a JSON object in which both are non-empty strings, the answer is 200
  and the record of the two is appended to the ledger.
\<close>

theorem log_request:
  assumes "\<not> caller_blocked w self0"
    and "path self0 = ''/blacklist/log''"
    and "header_length self0 = Inr len"
    and "rfile_read self0 len = Inr p"
  shows "(((\<exists>e. json_loads p = Inl e)
           \<or> (\<exists>v. json_loads p = Inr v \<and> \<not> is_dict v)
           \<or> (\<exists>data. json_loads p = Inr (JObj data)
                \<and> (\<not> truthy (dict_get data ''ip'' JNull) \<or> \<not> truthy (dict_get data ''attack_type'' JNull))))
          \<longrightarrow> do_POST src self0 w
                = (Responded (json_response 400 (JObj [(''error'', JStr ''Invalid JSON or missing fields'')])), w))
       \<and> ((\<exists>data. json_loads p = Inr (JObj data)
                \<and> map_of data ''ip'' = Some (JStr ip) \<and> ip \<noteq> []
                \<and> map_of data ''attack_type'' = Some (JStr attack_type) \<and> attack_type \<noteq> [])
          \<longrightarrow> fst (do_POST src self0 w)
                = Responded (json_response 200 (JObj [(''status'', JStr (''Attack from IP '' @ ip @ '' logged''))]))
            \<and> get_blacklist (ledger (snd (do_POST src self0 w)))
                = get_blacklist (ledger w) @ [[(''ip'', FStr ip), (''attack_type'', FStr attack_type)]])"
proof -
  have post: "do_POST src self0 w = post_log self0 w"
    using assms(1,2) by (simp add: do_POST_admitted)
  have rejected: "do_POST src self0 w
        = (Responded (json_response 400 (JObj [(''error'', JStr ''Invalid JSON or missing fields'')])), w)"
    if "(\<exists>e. json_loads p = Inl e)
           \<or> (\<exists>v. json_loads p = Inr v \<and> \<not> is_dict v)
           \<or> (\<exists>data. json_loads p = Inr (JObj data)
                \<and> (\<not> truthy (dict_get data ''ip'' JNull) \<or> \<not> truthy (dict_get data ''attack_type'' JNull)))"
  proof -
    from that have "\<exists>e. log_fields_of p = Inl e"
    proof (elim disjE exE conjE)
      fix e assume "json_loads p = Inl e"
      then show ?thesis by (simp add: log_fields_of_def)
    next
      fix v assume "json_loads p = Inr v" "\<not> is_dict v"
      then show ?thesis by (rule log_fields_of_not_dict)
    next
      fix data assume "json_loads p = Inr (JObj data)" "\<not> truthy (dict_get data ''ip'' JNull)"
      then show ?thesis by (simp add: log_fields_of_falsy)
    next
      fix data assume "json_loads p = Inr (JObj data)" "\<not> truthy (dict_get data ''attack_type'' JNull)"
      then show ?thesis by (simp add: log_fields_of_falsy)
    qed
    then obtain e where "log_fields_of p = Inl e" by blast
    with assms(3,4) post show ?thesis by (simp add: post_log_rejects)
  qed
  have accepted: "do_POST src self0 w
        = (Responded (json_response 200 (JObj [(''status'', JStr (''Attack from IP '' @ ip @ '' logged''))])),
           w\<lparr>ledger := log_attack ip attack_type (ledger w)\<rparr>)"
    if "json_loads p = Inr (JObj data)"
       "map_of data ''ip'' = Some (JStr ip)" "ip \<noteq> []"
       "map_of data ''attack_type'' = Some (JStr attack_type)" "attack_type \<noteq> []" for data
    using post post_log_accepts [OF assms(3,4) that] by simp
  show ?thesis
  proof (intro conjI impI)
    assume "(\<exists>e. json_loads p = Inl e)
           \<or> (\<exists>v. json_loads p = Inr v \<and> \<not> is_dict v)
           \<or> (\<exists>data. json_loads p = Inr (JObj data)
                \<and> (\<not> truthy (dict_get data ''ip'' JNull) \<or> \<not> truthy (dict_get data ''attack_type'' JNull)))"
    then show "do_POST src self0 w
        = (Responded (json_response 400 (JObj [(''error'', JStr ''Invalid JSON or missing fields'')])), w)"
      by (rule rejected)
  next
    assume a: "\<exists>data. json_loads p = Inr (JObj data)
                \<and> map_of data ''ip'' = Some (JStr ip) \<and> ip \<noteq> []
                \<and> map_of data ''attack_type'' = Some (JStr attack_type) \<and> attack_type \<noteq> []"
    then show "fst (do_POST src self0 w)
                = Responded (json_response 200 (JObj [(''status'', JStr (''Attack from IP '' @ ip @ '' logged''))]))"
      using accepted by auto
    from a show "get_blacklist (ledger (snd (do_POST src self0 w)))
                = get_blacklist (ledger w) @ [[(''ip'', FStr ip), (''attack_type'', FStr attack_type)]]"
      using accepted by (auto simp: get_blacklist_def log_attack_def)
  qed
qed

theorem log_request_witness:
  "do_POST steady_source
      (request ''9.9.9.9'' ''/blacklist/log'' (Some ''17'') (Parsed (JObj [(''ip'', JStr ''9.9.9.9'')])))
      sample_world
     = (Responded (json_response 400 (JObj [(''error'', JStr ''Invalid JSON or missing fields'')])), sample_world)
   \<and> fst (do_POST steady_source
        (request ''9.9.9.9'' ''/blacklist/log'' (Some ''44'')
           (Parsed (JObj [(''ip'', JStr ''9.9.9.9''), (''attack_type'', JStr ''DoS Test'')])))
        sample_world)
     = Responded (json_response 200 (JObj [(''status'', JStr ''Attack from IP 9.9.9.9 logged'')]))
   \<and> get_blacklist (ledger (snd (do_POST steady_source
        (request ''9.9.9.9'' ''/blacklist/log'' (Some ''44'')
           (Parsed (JObj [(''ip'', JStr ''9.9.9.9''), (''attack_type'', JStr ''DoS Test'')])))
        sample_world)))
     = get_blacklist (ledger sample_world) @ [[(''ip'', FStr ''9.9.9.9''), (''attack_type'', FStr ''DoS Test'')]]"
proof -
  let ?bad = "request ''9.9.9.9'' ''/blacklist/log'' (Some ''17'') (Parsed (JObj [(''ip'', JStr ''9.9.9.9'')]))"
  let ?good = "request ''9.9.9.9'' ''/blacklist/log'' (Some ''44'')
           (Parsed (JObj [(''ip'', JStr ''9.9.9.9''), (''attack_type'', JStr ''DoS Test'')]))"
  have b1: "\<not> caller_blocked sample_world ?bad" by code_simp
  have b2: "path ?bad = ''/blacklist/log''" by code_simp
  have b3: "header_length ?bad = Inr 17" by code_simp
  have b4: "rfile_read ?bad 17 = Inr (Parsed (JObj [(''ip'', JStr ''9.9.9.9'')]))" by code_simp
  have b5: "json_loads (Parsed (JObj [(''ip'', JStr ''9.9.9.9'')])) = Inr (JObj [(''ip'', JStr ''9.9.9.9'')])"
    by code_simp
  have b6: "\<not> truthy (dict_get [(''ip'', JStr ''9.9.9.9'')] ''attack_type'' JNull)" by code_simp
  have g1: "\<not> caller_blocked sample_world ?good" by code_simp
  have g2: "path ?good = ''/blacklist/log''" by code_simp
  have g3: "header_length ?good = Inr 44" by code_simp
  have g4: "rfile_read ?good 44
      = Inr (Parsed (JObj [(''ip'', JStr ''9.9.9.9''), (''attack_type'', JStr ''DoS Test'')]))"
    by code_simp
  have g5: "json_loads (Parsed (JObj [(''ip'', JStr ''9.9.9.9''), (''attack_type'', JStr ''DoS Test'')]))
      = Inr (JObj [(''ip'', JStr ''9.9.9.9''), (''attack_type'', JStr ''DoS Test'')])"
    by code_simp
  have g6: "map_of [(''ip'', JStr ''9.9.9.9''), (''attack_type'', JStr ''DoS Test'')] ''ip'' = Some (JStr ''9.9.9.9'')"
    by simp
  have g7: "map_of [(''ip'', JStr ''9.9.9.9''), (''attack_type'', JStr ''DoS Test'')] ''attack_type'' = Some (JStr ''DoS Test'')"
    by simp
  from log_request [OF b1 b2 b3 b4, where src = steady_source] b5 b6
  have bad: "do_POST steady_source ?bad sample_world
     = (Responded (json_response 400 (JObj [(''error'', JStr ''Invalid JSON or missing fields'')])), sample_world)"
    by blast
  from log_request [OF g1 g2 g3 g4, where src = steady_source and ip = "''9.9.9.9''" and attack_type = "''DoS Test''"] g5 g6 g7
  have good: "fst (do_POST steady_source ?good sample_world)
       = Responded (json_response 200 (JObj [(''status'', JStr (''Attack from IP '' @ ''9.9.9.9'' @ '' logged''))]))
     \<and> get_blacklist (ledger (snd (do_POST steady_source ?good sample_world)))
       = get_blacklist (ledger sample_world) @ [[(''ip'', FStr ''9.9.9.9''), (''attack_type'', FStr ''DoS Test'')]]"
    by auto
  from bad good show ?thesis by simp
qed

section \<open>Lenient inputs\<close>

text \<open>
  Claim C10. \<open>POST /blacklist/log\<close> answers 400 also when \<open>ip\<close> or \<open>attack_type\<close> is present
  but falsy, and \<open>POST /blacklist/set-interval\<close> accepts any interval that \<open>int()\<close> converts,
  storing and echoing the converted integer. The second half leaves out the test against 1:
  the string \<open>"0"\<close> converts, to 0, and is refused.
\<close>

theorem set_interval_rejects_zero_string:
  "py_int (JStr ''0'') = Inr 0
   \<and> do_POST steady_source
        (request ''9.9.9.9'' ''/blacklist/set-interval'' (Some ''17'') (Parsed (JObj [(''interval'', JStr ''0'')])))
        sample_world
     = (Responded (send_error 400 (InvalidData (ValueError ''Interval must be >= 1''))), sample_world)"
  by code_simp

text \<open>
  Claim C10, amended. From a caller that is not blocked, when the \<open>Content-Length\<close> reads as
  a number, the read of that many bytes returns and \<open>json.loads\<close> returns a JSON object:
  \<open>/blacklist/log\<close> answers 400 and changes nothing when \<open>ip\<close> or \<open>attack_type\<close> is present
  but falsy; \<open>/blacklist/set-interval\<close> answers 200 with \<open>k\<close> and stores \<open>k\<close> for any interval
  value that \<open>int()\<close> converts to an integer \<open>k >= 1\<close>.
\<close>

theorem lenient_inputs:
  assumes "\<not> caller_blocked w self0"
    and "header_length self0 = Inr len"
    and "rfile_read self0 len = Inr p"
    and "json_loads p = Inr (JObj data)"
  shows "((path self0 = ''/blacklist/log''
            \<and> ((\<exists>v. map_of data ''ip'' = Some v \<and> \<not> truthy v)
                 \<or> (\<exists>v. map_of data ''attack_type'' = Some v \<and> \<not> truthy v)))
          \<longrightarrow> do_POST src self0 w
                = (Responded (json_response 400 (JObj [(''error'', JStr ''Invalid JSON or missing fields'')])), w))
       \<and> ((path self0 = ''/blacklist/set-interval''
            \<and> (\<exists>v. map_of data ''interval'' = Some v \<and> py_int v = Inr k) \<and> 1 \<le> k)
          \<longrightarrow> fst (do_POST src self0 w)
                = Responded (json_response 200 (JObj [(''status'', JStr ''success''), (''new_interval'', JInt k)]))
            \<and> auto_update_interval (snd (do_POST src self0 w)) = k)"
proof (intro conjI impI)
  assume a: "path self0 = ''/blacklist/log''
            \<and> ((\<exists>v. map_of data ''ip'' = Some v \<and> \<not> truthy v)
                 \<or> (\<exists>v. map_of data ''attack_type'' = Some v \<and> \<not> truthy v))"
  then have "\<not> truthy (dict_get data ''ip'' JNull) \<or> \<not> truthy (dict_get data ''attack_type'' JNull)"
    by (auto simp: dict_get_Some)
  with assms(4) have "log_fields_of p = Inl (ValueError ''Missing ip or attack_type'')"
    by (rule log_fields_of_falsy)
  with assms(2,3) have "post_log self0 w
      = (Responded (json_response 400 (JObj [(''error'', JStr ''Invalid JSON or missing fields'')])), w)"
    by (rule post_log_rejects)
  moreover have "do_POST src self0 w = post_log self0 w"
    using assms(1) a by (simp add: do_POST_admitted)
  ultimately show "do_POST src self0 w
      = (Responded (json_response 400 (JObj [(''error'', JStr ''Invalid JSON or missing fields'')])), w)"
    by simp
next
  assume a: "path self0 = ''/blacklist/set-interval''
            \<and> (\<exists>v. map_of data ''interval'' = Some v \<and> py_int v = Inr k) \<and> 1 \<le> k"
  then have conv: "py_int (dict_get data ''interval'' (JInt 0)) = Inr k"
    by (auto simp: dict_get_Some)
  from a have k: "1 \<le> k" by simp
  have "do_POST src self0 w = post_set_interval self0 w"
    using assms(1) a by (simp add: do_POST_admitted)
  also have "\<dots> = (Responded (json_response 200 (JObj [(''status'', JStr ''success''), (''new_interval'', JInt k)])),
      w\<lparr>auto_update_interval := k, stdout := stdout w @ [InfoIntervalSet k], auto_update_event := True\<rparr>)"
    using assms(2,3,4) conv k by (rule post_set_interval_accepts)
  finally have post: "do_POST src self0 w
    = (Responded (json_response 200 (JObj [(''status'', JStr ''success''), (''new_interval'', JInt k)])),
      w\<lparr>auto_update_interval := k, stdout := stdout w @ [InfoIntervalSet k], auto_update_event := True\<rparr>)" .
  from post show "fst (do_POST src self0 w)
                = Responded (json_response 200 (JObj [(''status'', JStr ''success''), (''new_interval'', JInt k)]))"
    by simp
  from post show "auto_update_interval (snd (do_POST src self0 w)) = k" by simp
qed

theorem lenient_inputs_witness:
  "do_POST steady_source
      (request ''9.9.9.9'' ''/blacklist/log'' (Some ''37'')
         (Parsed (JObj [(''ip'', JStr ''''), (''attack_type'', JStr ''DoS Test'')])))
      sample_world
     = (Responded (json_response 400 (JObj [(''error'', JStr ''Invalid JSON or missing fields'')])), sample_world)
   \<and> fst (do_POST steady_source
        (request ''9.9.9.9'' ''/blacklist/set-interval'' (Some ''17'') (Parsed (JObj [(''interval'', JStr ''5'')])))
        sample_world)
     = Responded (json_response 200 (JObj [(''status'', JStr ''success''), (''new_interval'', JInt 5)]))
   \<and> auto_update_interval (snd (do_POST steady_source
        (request ''9.9.9.9'' ''/blacklist/set-interval'' (Some ''17'') (Parsed (JObj [(''interval'', JStr ''5'')])))
        sample_world)) = 5"
proof -
  let ?lg = "request ''9.9.9.9'' ''/blacklist/log'' (Some ''37'')
         (Parsed (JObj [(''ip'', JStr ''''), (''attack_type'', JStr ''DoS Test'')]))"
  let ?si = "request ''9.9.9.9'' ''/blacklist/set-interval'' (Some ''17'') (Parsed (JObj [(''interval'', JStr ''5'')]))"
  have l1: "\<not> caller_blocked sample_world ?lg" by code_simp
  have l2: "header_length ?lg = Inr 37" by code_simp
  have l3: "rfile_read ?lg 37 = Inr (Parsed (JObj [(''ip'', JStr ''''), (''attack_type'', JStr ''DoS Test'')]))"
    by code_simp
  have l4: "json_loads (Parsed (JObj [(''ip'', JStr ''''), (''attack_type'', JStr ''DoS Test'')]))
      = Inr (JObj [(''ip'', JStr ''''), (''attack_type'', JStr ''DoS Test'')])"
    by code_simp
  have l5: "path ?lg = ''/blacklist/log''" by code_simp
  have l6: "map_of [(''ip'', JStr ''''), (''attack_type'', JStr ''DoS Test'')] ''ip'' = Some (JStr '''') \<and> \<not> truthy (JStr '''')"
    by simp
  have s1: "\<not> caller_blocked sample_world ?si" by code_simp
  have s2: "header_length ?si = Inr 17" by code_simp
  have s3: "rfile_read ?si 17 = Inr (Parsed (JObj [(''interval'', JStr ''5'')]))" by code_simp
  have s4: "json_loads (Parsed (JObj [(''interval'', JStr ''5'')])) = Inr (JObj [(''interval'', JStr ''5'')])"
    by code_simp
  have s5: "path ?si = ''/blacklist/set-interval''" by code_simp
  have s6: "py_int (JStr ''5'') = Inr 5" by code_simp
  have s7: "map_of [(''interval'', JStr ''5'')] ''interval'' = Some (JStr ''5'')" by simp
  from lenient_inputs [OF l1 l2 l3 l4, where src = steady_source] l5 l6
  have a: "do_POST steady_source ?lg sample_world
     = (Responded (json_response 400 (JObj [(''error'', JStr ''Invalid JSON or missing fields'')])), sample_world)"
    by blast
  from lenient_inputs [OF s1 s2 s3 s4, where src = steady_source and k = 5] s5 s6 s7
  have b: "fst (do_POST steady_source ?si sample_world)
     = Responded (json_response 200 (JObj [(''status'', JStr ''success''), (''new_interval'', JInt 5)]))
   \<and> auto_update_interval (snd (do_POST steady_source ?si sample_world)) = 5"
    by auto
  from a b show ?thesis by simp
qed

section \<open>Deleting a record\<close>

text \<open>
  Claim C7. For a \<open>DELETE /blacklist/delete/{index}\<close>: an index that is not an integer
  gives 400; an index at which the ledger has no record gives 404 and leaves the records
  as they are; an index at which it has one gives 200, and exactly that record is removed,
  the others keeping their order. The request is one whose target \<open>urlparse\<close> gives a path
  with the three segments \<open>blacklist\<close>, \<open>delete\<close> and \<open>s\<close>; the index is an integer when
  \<open>int()\<close> reads \<open>s\<close>, and is then what \<open>int()\<close> returns.
\<close>

theorem delete_request:
  assumes "urlparse_path (path self) = UrlPath parsed_path"
    and "path_parts_of parsed_path = [''blacklist'', ''delete'', s]"
  shows "(\<forall>e. int_of_str s = Inl e \<longrightarrow>
            do_DELETE self w
              = (Responded (json_response 400 (JObj [(''error'', JStr ''Index must be an integer'')])), w))
       \<and> (\<forall>index. int_of_str s = Inr index \<longrightarrow>
            (if 0 \<le> index \<and> index < int (length (get_blacklist (ledger w)))
             then (\<exists>r w'. do_DELETE self w = (Responded r, w') \<and> status r = 200
                     \<and> Suc (length (get_blacklist (ledger w'))) = length (get_blacklist (ledger w))
                     \<and> get_blacklist (ledger w')
                         = take (nat index) (get_blacklist (ledger w))
                           @ drop (Suc (nat index)) (get_blacklist (ledger w)))
             else (\<exists>r. do_DELETE self w = (Responded r, w) \<and> status r = 404)))"
proof (intro conjI allI impI)
  fix e assume "int_of_str s = Inl e"
  then show "do_DELETE self w
      = (Responded (json_response 400 (JObj [(''error'', JStr ''Index must be an integer'')])), w)"
    by (simp add: do_DELETE_route [OF assms])
next
  fix index assume i: "int_of_str s = Inr index"
  show "if 0 \<le> index \<and> index < int (length (get_blacklist (ledger w)))
        then (\<exists>r w'. do_DELETE self w = (Responded r, w') \<and> status r = 200
                \<and> Suc (length (get_blacklist (ledger w'))) = length (get_blacklist (ledger w))
                \<and> get_blacklist (ledger w')
                    = take (nat index) (get_blacklist (ledger w))
                      @ drop (Suc (nat index)) (get_blacklist (ledger w)))
        else (\<exists>r. do_DELETE self w = (Responded r, w) \<and> status r = 404)"
  proof (cases "0 \<le> index \<and> index < int (length (ledger w))")
    case True
    then have n: "nat index < length (ledger w)" by linarith
    from True have d: "delete_attack index (ledger w)
        = (True, take (nat index) (ledger w) @ drop (Suc (nat index)) (ledger w))"
      by (simp add: delete_attack_def)
    have "do_DELETE self w
        = (Responded (json_response 200
             (JObj [(''message'', JStr (''Attack at index '' @ str_int index @ '' deleted''))])),
           w\<lparr>ledger := take (nat index) (ledger w) @ drop (Suc (nat index)) (ledger w)\<rparr>)"
      by (simp add: do_DELETE_route [OF assms] i d)
    moreover have "Suc (length (take (nat index) (ledger w) @ drop (Suc (nat index)) (ledger w)))
        = length (ledger w)"
      using n by simp
    ultimately show ?thesis using True by (simp add: get_blacklist_def json_response_def)
  next
    case False
    then have d: "delete_attack index (ledger w) = (False, ledger w)"
      by (simp add: delete_attack_def)
    have "do_DELETE self w
        = (Responded (json_response 404
             (JObj [(''error'', JStr (''No attack found at index '' @ str_int index))])), w)"
      by (simp add: do_DELETE_route [OF assms] i d)
    then show ?thesis using False by (simp add: get_blacklist_def json_response_def)
  qed
qed

theorem delete_request_witness:
  "do_DELETE (request ''9.9.9.9'' ''/blacklist/delete/x'' None Malformed) (sample_world\<lparr>ledger := mixed_ledger\<rparr>)
     = (Responded (json_response 400 (JObj [(''error'', JStr ''Index must be an integer'')])),
        sample_world\<lparr>ledger := mixed_ledger\<rparr>)
   \<and> (\<exists>r w'. do_DELETE (request ''9.9.9.9'' ''http://host/blacklist/delete/1?force#top'' None Malformed)
                 (sample_world\<lparr>ledger := mixed_ledger\<rparr>) = (Responded r, w')
         \<and> status r = 200
         \<and> Suc (length (get_blacklist (ledger w'))) = 3
         \<and> get_blacklist (ledger w')
             = [[(''ip'', FStr ''1.1.1.1''), (''attack_type'', FStr ''DoS Test'')],
                [(''attack_type'', FStr ''Scan''), (''ip'', FStr ''2.2.2.2'')]])
   \<and> (\<exists>r. do_DELETE (request ''9.9.9.9'' ''/blacklist/delete/3'' None Malformed)
              (sample_world\<lparr>ledger := mixed_ledger\<rparr>)
            = (Responded r, sample_world\<lparr>ledger := mixed_ledger\<rparr>)
         \<and> status r = 404)"
proof -
  let ?w = "sample_world\<lparr>ledger := mixed_ledger\<rparr>"
  have u0: "urlparse_path (path (request ''9.9.9.9'' ''/blacklist/delete/x'' None Malformed))
      = UrlPath ''/blacklist/delete/x''"
    by code_simp
  have u1: "urlparse_path (path (request ''9.9.9.9'' ''http://host/blacklist/delete/1?force#top'' None Malformed))
      = UrlPath ''/blacklist/delete/1''"
    by code_simp
  have u3: "urlparse_path (path (request ''9.9.9.9'' ''/blacklist/delete/3'' None Malformed))
      = UrlPath ''/blacklist/delete/3''"
    by code_simp
  have p0: "path_parts_of ''/blacklist/delete/x'' = [''blacklist'', ''delete'', ''x'']" by code_simp
  have p1: "path_parts_of ''/blacklist/delete/1'' = [''blacklist'', ''delete'', ''1'']" by code_simp
  have p3: "path_parts_of ''/blacklist/delete/3'' = [''blacklist'', ''delete'', ''3'']" by code_simp
  have i0: "int_of_str ''x'' = Inl InvalidLiteral" by code_simp
  have i1: "int_of_str ''1'' = Inr 1" by code_simp
  have i3: "int_of_str ''3'' = Inr 3" by code_simp
  have a: "do_DELETE (request ''9.9.9.9'' ''/blacklist/delete/x'' None Malformed) ?w
     = (Responded (json_response 400 (JObj [(''error'', JStr ''Index must be an integer'')])), ?w)"
    using delete_request [OF u0 p0, where w = ?w] i0 by blast
  have b: "\<exists>r w'. do_DELETE (request ''9.9.9.9'' ''http://host/blacklist/delete/1?force#top'' None Malformed) ?w
           = (Responded r, w')
         \<and> status r = 200
         \<and> Suc (length (get_blacklist (ledger w'))) = 3
         \<and> get_blacklist (ledger w')
             = [[(''ip'', FStr ''1.1.1.1''), (''attack_type'', FStr ''DoS Test'')],
                [(''attack_type'', FStr ''Scan''), (''ip'', FStr ''2.2.2.2'')]]"
    using delete_request [OF u1 p1, where w = ?w, THEN conjunct2, rule_format, OF i1]
    by (auto simp: get_blacklist_def mixed_ledger_def)
  have c: "\<exists>r. do_DELETE (request ''9.9.9.9'' ''/blacklist/delete/3'' None Malformed) ?w = (Responded r, ?w)
         \<and> status r = 404"
    using delete_request [OF u3 p3, where w = ?w, THEN conjunct2, rule_format, OF i3]
    by (auto simp: get_blacklist_def mixed_ledger_def)
  from a b c show ?thesis by blast
qed

end
